theory Spec2Isabelle
  imports Main
begin

section \<open>Text primitives\<close>

text \<open>
  Python strings are modelled as HOL strings. The model covers ASCII text: letters
  outside \<open>A-Z\<close>/\<open>a-z\<close> have no case, and the whitespace characters are the ASCII
  ones that \<^verbatim>\<open>str.isspace\<close> accepts (tab, LF, VT, FF, CR, FS, GS, RS, US, space).
\<close>

definition in_range :: "nat \<Rightarrow> nat \<Rightarrow> char \<Rightarrow> bool" where
  "in_range lo hi c = (lo \<le> (of_char c :: nat) \<and> (of_char c :: nat) \<le> hi)"

definition is_upper :: "char \<Rightarrow> bool" where
  "is_upper c = in_range 65 90 c"

definition is_lower :: "char \<Rightarrow> bool" where
  "is_lower c = in_range 97 122 c"

definition is_digit :: "char \<Rightarrow> bool" where
  "is_digit c = in_range 48 57 c"

definition is_alpha :: "char \<Rightarrow> bool" where
  "is_alpha c = (is_upper c \<or> is_lower c)"

definition is_space :: "char \<Rightarrow> bool" where
  "is_space c = (in_range 9 13 c \<or> in_range 28 32 c)"

definition is_word :: "char \<Rightarrow> bool" where
  "is_word c = (is_alpha c \<or> is_digit c \<or> c = CHR ''_'')"

definition lower_char :: "char \<Rightarrow> char" where
  "lower_char c = (if is_upper c then char_of ((of_char c :: nat) + 32) else c)"

definition upper_char :: "char \<Rightarrow> char" where
  "upper_char c = (if is_lower c then char_of ((of_char c :: nat) - 32) else c)"

definition lower :: "string \<Rightarrow> string" where
  "lower s = map lower_char s"

definition upper :: "string \<Rightarrow> string" where
  "upper s = map upper_char s"

definition strip :: "string \<Rightarrow> string" where
  "strip s = rev (dropWhile is_space (rev (dropWhile is_space s)))"

definition startswith :: "string \<Rightarrow> string \<Rightarrow> bool" where
  "startswith s p = (take (length p) s = p)"

text \<open>\<open>str_in k t\<close> is Python's \<^verbatim>\<open>k in t\<close> on strings: \<open>k\<close> occurs in \<open>t\<close> as a
  contiguous run of characters.\<close>

fun str_in :: "string \<Rightarrow> string \<Rightarrow> bool" where
  "str_in k [] = (k = [])"
| "str_in k (c # cs) = (startswith (c # cs) k \<or> str_in k cs)"

text \<open>\<open>x or ""\<close> on a value that is a string or \<open>None\<close>.\<close>

definition or_empty :: "string option \<Rightarrow> string" where
  "or_empty v = (case v of None \<Rightarrow> [] | Some s \<Rightarrow> s)"

text \<open>\<^verbatim>\<open>int(s)\<close> on a run of decimal digits, possibly with surrounding blanks.\<close>

definition digit_val :: "char \<Rightarrow> int" where
  "digit_val c = int ((of_char c :: nat) - 48)"

definition int_of_str :: "string \<Rightarrow> int" where
  "int_of_str s = foldl (\<lambda>acc c. 10 * acc + digit_val c) 0 (strip s)"

definition zfill2 :: "string \<Rightarrow> string" where
  "zfill2 s = replicate (2 - length s) (CHR ''0'') @ s"

fun first_some :: "('a \<Rightarrow> 'b option) \<Rightarrow> 'a list \<Rightarrow> 'b option" where
  "first_some f [] = None"
| "first_some f (x # xs) = (case f x of Some y \<Rightarrow> Some y | None \<Rightarrow> first_some f xs)"

definition orelse :: "'a option \<Rightarrow> 'a option \<Rightarrow> 'a option" where
  "orelse a b = (case a of Some x \<Rightarrow> Some x | None \<Rightarrow> b)"


section \<open>Calendar dates\<close>

text \<open>
  A \<^verbatim>\<open>datetime.date\<close> is represented by its proleptic Gregorian ordinal
  (\<^verbatim>\<open>date.toordinal()\<close>), so that comparison of dates is comparison of integers and
  \<^verbatim>\<open>d - timedelta(days=k)\<close> is \<open>d - k\<close>. \<open>mk_date\<close> is the constructor
  \<^verbatim>\<open>date(y, m, d)\<close>, which raises \<^verbatim>\<open>ValueError\<close> on a field out of range.
\<close>

type_synonym date = int

definition is_leap :: "int \<Rightarrow> bool" where
  "is_leap y = (y mod 4 = 0 \<and> (y mod 100 \<noteq> 0 \<or> y mod 400 = 0))"

definition days_in_month :: "int \<Rightarrow> int \<Rightarrow> int" where
  "days_in_month y m =
     (if m = 2 then (if is_leap y then 29 else 28)
      else if m = 4 \<or> m = 6 \<or> m = 9 \<or> m = 11 then 30 else 31)"

definition days_before_year :: "int \<Rightarrow> int" where
  "days_before_year y = (y - 1) * 365 + (y - 1) div 4 - (y - 1) div 100 + (y - 1) div 400"

definition days_before_month :: "int \<Rightarrow> int \<Rightarrow> int" where
  "days_before_month y m =
     sum_list (map (days_in_month y) [1..m - 1])"

definition ymd2ord :: "int \<Rightarrow> int \<Rightarrow> int \<Rightarrow> date" where
  "ymd2ord y m d = days_before_year y + days_before_month y m + d"

definition mk_date :: "int \<Rightarrow> int \<Rightarrow> int \<Rightarrow> date option" where
  "mk_date y m d =
     (if 1 \<le> y \<and> y \<le> 9999 \<and> 1 \<le> m \<and> m \<le> 12 \<and> 1 \<le> d \<and> d \<le> days_in_month y m
      then Some (ymd2ord y m d) else None)"


section \<open>Regular-expression search\<close>

text \<open>
  The patterns of the scrapers, and the patterns that \<^verbatim>\<open>strptime\<close> builds from a
  format, are sequences of three kinds of item: a character class repeated greedily
  between a lower and an optional upper bound, the word boundary \<^verbatim>\<open>\b\<close>, and an
  alternation of fixed-length sequences of character classes, tried in order.
  \<open>match_here\<close> is the backtracking matcher at one position: it returns the text
  consumed by each consuming item of the first successful path. \<open>search\<close> is
  \<^verbatim>\<open>re.search\<close>: the leftmost position where \<open>match_here\<close> succeeds.
\<close>

datatype item =
    Rep "char \<Rightarrow> bool" nat "nat option"
  | Bound
  | Alt "(char \<Rightarrow> bool) list list"

definition word_opt :: "char option \<Rightarrow> bool" where
  "word_opt c = (case c of None \<Rightarrow> False | Some x \<Rightarrow> is_word x)"

definition head_opt :: "string \<Rightarrow> char option" where
  "head_opt s = (case s of [] \<Rightarrow> None | c # _ \<Rightarrow> Some c)"

definition prev_after :: "char option \<Rightarrow> string \<Rightarrow> char option" where
  "prev_after prev taken = (if taken = [] then prev else Some (last taken))"

definition fits :: "(char \<Rightarrow> bool) list \<Rightarrow> string \<Rightarrow> bool" where
  "fits alt s = (length alt \<le> length s \<and> list_all2 (\<lambda>p c. p c) alt (take (length alt) s))"

fun match_here :: "item list \<Rightarrow> char option \<Rightarrow> string \<Rightarrow> string list option" where
  "match_here [] prev s = Some []"
| "match_here (Bound # r) prev s =
     (if word_opt prev \<noteq> word_opt (head_opt s) then match_here r prev s else None)"
| "match_here (Rep p lo hi # r) prev s =
     (let avail = length (takeWhile p s);
          kmax = (case hi of None \<Rightarrow> avail | Some h \<Rightarrow> min h avail)
      in first_some
           (\<lambda>k. map_option ((#) (take k s))
                   (match_here r (prev_after prev (take k s)) (drop k s)))
           (rev [lo..<Suc kmax]))"
| "match_here (Alt alts # r) prev s =
     first_some
       (\<lambda>alt. if fits alt s
               then map_option ((#) (take (length alt) s))
                      (match_here r (prev_after prev (take (length alt) s))
                         (drop (length alt) s))
               else None)
       alts"

fun search_from :: "item list \<Rightarrow> char option \<Rightarrow> string \<Rightarrow> string list option" where
  "search_from r prev [] = match_here r prev []"
| "search_from r prev (c # cs) =
     (case match_here r prev (c # cs) of
        Some segs \<Rightarrow> Some segs
      | None \<Rightarrow> search_from r (Some c) cs)"

definition search :: "item list \<Rightarrow> string \<Rightarrow> string list option" where
  "search r s = search_from r None s"

definition one :: "(char \<Rightarrow> bool) \<Rightarrow> item" where
  "one p = Rep p 1 (Some 1)"

definition is_sep :: "char \<Rightarrow> bool" where
  "is_sep c = (c = CHR ''/'' \<or> c = CHR ''-'')"


section \<open>\<^verbatim>\<open>datetime.strptime\<close>\<close>

text \<open>
  A format is a list of directives and literal characters. CPython's
  \<^verbatim>\<open>_strptime\<close> turns it into a case-insensitive regular expression (\<^verbatim>\<open>%d\<close> is
  \<^verbatim>\<open>3[0-1]|[1-2]\d|0[1-9]|[1-9]| [1-9]\<close>, \<^verbatim>\<open>%m\<close> is \<^verbatim>\<open>1[0-2]|0[1-9]|[1-9]\<close>,
  \<^verbatim>\<open>%Y\<close> is four digits, \<^verbatim>\<open>%B\<close> and \<^verbatim>\<open>%b\<close> are the month names, longest first,
  a run of blanks in the format is \<^verbatim>\<open>\s+\<close>), matches it at the start of the text,
  raises \<^verbatim>\<open>ValueError\<close> when the match fails or leaves text unconverted, and builds the
  date, which raises \<^verbatim>\<open>ValueError\<close> for a day the month does not have.
  The month names are those of the C locale.
\<close>

datatype ftok = FD | FM | FY | FB | Fb | FLit char | FSpace

definition ci :: "char \<Rightarrow> char \<Rightarrow> bool" where
  "ci x c = (lower_char c = lower_char x)"

definition is_one_of :: "string \<Rightarrow> char \<Rightarrow> bool" where
  "is_one_of cs c = (c \<in> set cs)"

definition month_names :: "string list" where
  "month_names = [''january'', ''february'', ''march'', ''april'', ''may'', ''june'', ''july'',
     ''august'', ''september'', ''october'', ''november'', ''december'']"

definition month_abbrs :: "string list" where
  "month_abbrs = map (take 3) month_names"

text \<open>\<^verbatim>\<open>sorted(names, key=len, reverse=True)\<close>: longest first, ties in their given order.\<close>

definition longest_first :: "string list \<Rightarrow> string list" where
  "longest_first xs = sort_key (\<lambda>x. - int (length x)) xs"

definition names_alt :: "string list \<Rightarrow> item" where
  "names_alt xs = Alt (map (map ci) (longest_first xs))"

definition nonzero_digit :: "char \<Rightarrow> bool" where
  "nonzero_digit c = in_range 49 57 c"

fun compile_tok :: "ftok \<Rightarrow> item" where
  "compile_tok FD = Alt [[is_one_of ''3'', is_one_of ''01''], [is_one_of ''12'', is_digit],
                         [is_one_of ''0'', nonzero_digit], [nonzero_digit],
                         [is_one_of '' '', nonzero_digit]]"
| "compile_tok FM = Alt [[is_one_of ''1'', is_one_of ''012''], [is_one_of ''0'', nonzero_digit],
                         [nonzero_digit]]"
| "compile_tok FY = Alt [[is_digit, is_digit, is_digit, is_digit]]"
| "compile_tok FB = names_alt month_names"
| "compile_tok Fb = names_alt month_abbrs"
| "compile_tok (FLit c) = one (ci c)"
| "compile_tok FSpace = Rep is_space 1 None"

text \<open>The position of a name in a list, counted from one (\<^verbatim>\<open>f_month.index\<close>).\<close>

fun index_of :: "string \<Rightarrow> string list \<Rightarrow> int option" where
  "index_of x [] = None"
| "index_of x (y # ys) = (if x = y then Some 1 else map_option (\<lambda>i. i + 1) (index_of x ys))"

text \<open>The fields found; a field the format lacks keeps \<^verbatim>\<open>strptime\<close>'s default
  (year 1900, month 1, day 1).\<close>

fun fields :: "(ftok \<times> string) list \<Rightarrow> (int \<times> int \<times> int) \<Rightarrow> (int \<times> int \<times> int) option" where
  "fields [] ymd = Some ymd"
| "fields ((t, seg) # r) (y, m, d) =
     (case t of
        FD \<Rightarrow> fields r (y, m, int_of_str seg)
      | FM \<Rightarrow> fields r (y, int_of_str seg, d)
      | FY \<Rightarrow> fields r (int_of_str seg, m, d)
      | FB \<Rightarrow> (case index_of (lower seg) month_names of
                 None \<Rightarrow> None | Some i \<Rightarrow> fields r (y, i, d))
      | Fb \<Rightarrow> (case index_of (lower seg) month_abbrs of
                 None \<Rightarrow> None | Some i \<Rightarrow> fields r (y, i, d))
      | FLit c \<Rightarrow> fields r (y, m, d)
      | FSpace \<Rightarrow> fields r (y, m, d))"

definition strptime :: "string \<Rightarrow> ftok list \<Rightarrow> date option" where
  "strptime s fmt =
     (case match_here (map compile_tok fmt) None s of
        None \<Rightarrow> None
      | Some segs \<Rightarrow>
          if concat segs \<noteq> s then None
          else (case fields (zip fmt segs) (1900, 1, 1) of
                  None \<Rightarrow> None
                | Some (y, m, d) \<Rightarrow> mk_date y m d))"

definition fmt_d_m_Y_dash :: "ftok list" where
  "fmt_d_m_Y_dash = [FD, FLit (CHR ''-''), FM, FLit (CHR ''-''), FY]"

definition fmt_d_m_Y_slash :: "ftok list" where
  "fmt_d_m_Y_slash = [FD, FLit (CHR ''/''), FM, FLit (CHR ''/''), FY]"

definition fmt_Y_m_d :: "ftok list" where
  "fmt_Y_m_d = [FY, FLit (CHR ''-''), FM, FLit (CHR ''-''), FD]"

definition fmt_d_B_Y :: "ftok list" where
  "fmt_d_B_Y = [FD, FSpace, FB, FSpace, FY]"

definition fmt_d_b_Y :: "ftok list" where
  "fmt_d_b_Y = [FD, FSpace, Fb, FSpace, FY]"

definition fmt_B_d_Y :: "ftok list" where
  "fmt_B_d_Y = [FB, FSpace, FD, FLit (CHR '',''), FSpace, FY]"

definition fmt_b_d_Y :: "ftok list" where
  "fmt_b_d_Y = [Fb, FSpace, FD, FLit (CHR '',''), FSpace, FY]"


section \<open>Date resolution of the PTU scraper\<close>

text \<open>\<^verbatim>\<open>date_regexes\<close> of \<^verbatim>\<open>modules/scraper_ptu.py\<close>, in their order.\<close>

definition ptu_re0 :: "item list" where
  "ptu_re0 = [Bound, Rep is_digit 1 (Some 2), one is_sep, Rep is_digit 1 (Some 2), one is_sep,
              Rep is_digit 4 (Some 4), Bound]"

definition ptu_re1 :: "item list" where
  "ptu_re1 = [Bound, Rep is_digit 1 (Some 2), Rep is_space 1 None, Rep is_alpha 1 None,
              Rep is_space 1 None, Rep is_digit 4 (Some 4), Bound]"

definition ptu_re2 :: "item list" where
  "ptu_re2 = [Bound, Rep is_digit 4 (Some 4), one is_sep, Rep is_digit 1 (Some 2), one is_sep,
              Rep is_digit 1 (Some 2), Bound]"

definition ptu_try0 :: "string \<Rightarrow> date option" where
  "ptu_try0 t =
     (case search ptu_re0 t of
        Some [g1, s1, g2, s2, g3] \<Rightarrow>
          strptime (zfill2 g1 @ ''-'' @ zfill2 g2 @ ''-'' @ g3) fmt_d_m_Y_dash
      | _ \<Rightarrow> None)"

definition ptu_try1 :: "string \<Rightarrow> date option" where
  "ptu_try1 t =
     (case search ptu_re1 t of
        Some segs \<Rightarrow> orelse (strptime (concat segs) fmt_d_B_Y) (strptime (concat segs) fmt_d_b_Y)
      | None \<Rightarrow> None)"

definition ptu_try2 :: "string \<Rightarrow> date option" where
  "ptu_try2 t =
     (case search ptu_re2 t of
        Some segs \<Rightarrow> strptime (concat segs) fmt_Y_m_d
      | None \<Rightarrow> None)"

definition try_parse_date :: "string \<Rightarrow> date option" where
  "try_parse_date text =
     (if text = [] then None
      else let t = strip text in
        orelse (ptu_try0 t)
       (orelse (ptu_try1 t)
       (orelse (ptu_try2 t)
          (first_some (strptime t)
             [fmt_d_m_Y_dash, fmt_d_m_Y_slash, fmt_d_b_Y, fmt_d_B_Y, fmt_Y_m_d]))))"


section \<open>Date resolution of the GNDEC scraper\<close>

definition is_alpha_3_9 :: "item" where
  "is_alpha_3_9 = Rep is_alpha 3 (Some 9)"

definition dash :: "item" where
  "dash = one (\<lambda>c. c = CHR ''-'')"

definition slash :: "item" where
  "slash = one (\<lambda>c. c = CHR ''/'')"

definition gndec_patterns :: "item list list" where
  "gndec_patterns =
     [[Rep is_digit 1 (Some 2), Rep is_space 1 None, is_alpha_3_9, Rep is_space 1 None,
       Rep is_digit 4 (Some 4)],
      [Rep is_digit 1 (Some 2), dash, Rep is_digit 1 (Some 2), dash, Rep is_digit 4 (Some 4)],
      [Rep is_digit 4 (Some 4), dash, Rep is_digit 1 (Some 2), dash, Rep is_digit 1 (Some 2)],
      [Rep is_digit 1 (Some 2), slash, Rep is_digit 1 (Some 2), slash, Rep is_digit 4 (Some 4)],
      [is_alpha_3_9, Rep is_space 1 None, Rep is_digit 1 (Some 2), one (\<lambda>c. c = CHR '',''),
       Rep is_space 0 None, Rep is_digit 4 (Some 4)]]"

definition gndec_formats :: "ftok list list" where
  "gndec_formats =
     [fmt_d_B_Y, fmt_d_m_Y_dash, fmt_Y_m_d, fmt_d_m_Y_slash, fmt_B_d_Y, fmt_b_d_Y, fmt_d_b_Y]"

definition try_extract_date_from_text :: "string \<Rightarrow> date option" where
  "try_extract_date_from_text text =
     (if text = [] then None
      else first_some
             (\<lambda>pat. case search pat text of
                       None \<Rightarrow> None
                     | Some segs \<Rightarrow> first_some (strptime (concat segs)) gndec_formats)
             gndec_patterns)"


section \<open>Data model\<close>

text \<open>
  The rows of the three tables, as the code reads and writes them. The notice rows are
  those the scrapers insert (every column filled); the optional columns of an alert may
  be \<^verbatim>\<open>NULL\<close>. The store is modelled as reliable: every \<^verbatim>\<open>run_query\<close> is executed,
  and the comparisons of its \<^verbatim>\<open>WHERE\<close> clauses are equality of values.
\<close>

record notice =
  n_id :: int
  n_title :: string
  n_link :: string
  n_date :: date
  n_source :: string

record alert =
  a_id :: int
  a_user_identifier :: string
  a_channel :: string
  a_keyword :: "string option"
  a_source :: "string option"
  a_frequency :: "string option"
  a_active :: bool

text \<open>
  The text of a message is an f-string over the fields of the notices it reports; the
  model keeps the interpolated values: source, title, link and date for the immediate
  message, the list of (title, link, date) for the digest.
\<close>

datatype message =
    Immediate string string string date
  | Digest "(string \<times> string \<times> date) list"

text \<open>One call of \<^verbatim>\<open>send_whatsapp\<close> or \<^verbatim>\<open>send_telegram\<close>, with what it returned.\<close>

record send_call =
  sc_channel :: string
  sc_to :: string
  sc_text :: message
  sc_ok :: bool

text \<open>
  The state the pipeline works on: the three tables and the auto-increment counter of
  \<^verbatim>\<open>notices\<close>, and three logs of what the code did: the send calls made (\<open>outbox\<close>),
  the notices \<^verbatim>\<open>notify_if_matches\<close> was called with (\<open>notified\<close>), and the links
  \<^verbatim>\<open>get_notice_date_from_page\<close> was called with (\<open>fetched\<close>).
\<close>

record state =
  notices :: "notice list"
  next_id :: int
  alerts :: "alert list"
  alerts_sent :: "(int \<times> int) list"
  outbox :: "send_call list"
  notified :: "notice list"
  fetched :: "string list"

text \<open>
  What the code reaches outside the process. A channel's send function answers
  \<open>True\<close> or \<open>False\<close>; its answer may depend on the number of send calls made before,
  on the recipient and on the message. \<open>get_notice_date_from_page\<close> fetches and parses
  a page; \<open>urljoin\<close> is \<^verbatim>\<open>urllib.parse.urljoin\<close>.
\<close>

record env =
  send_whatsapp :: "nat \<Rightarrow> string \<Rightarrow> message \<Rightarrow> bool"
  send_telegram :: "nat \<Rightarrow> string \<Rightarrow> message \<Rightarrow> bool"
  get_notice_date_from_page :: "string \<Rightarrow> date option"
  urljoin :: "string \<Rightarrow> string \<Rightarrow> string"

definition send_logged ::
  "(nat \<Rightarrow> string \<Rightarrow> message \<Rightarrow> bool) \<Rightarrow> string \<Rightarrow> string \<Rightarrow> message \<Rightarrow> state \<Rightarrow> bool \<times> state" where
  "send_logged f ch rcpt msg st =
     (let ok = f (length (outbox st)) rcpt msg
      in (ok, st\<lparr>outbox := outbox st @ [\<lparr>sc_channel = ch, sc_to = rcpt, sc_text = msg, sc_ok = ok\<rparr>]\<rparr>))"


section \<open>The sent-ledger (\<^verbatim>\<open>modules/alerts.py\<close>)\<close>

definition get_active_alerts :: "state \<Rightarrow> alert list" where
  "get_active_alerts st = filter a_active (alerts st)"

definition already_sent :: "state \<Rightarrow> int \<Rightarrow> int \<Rightarrow> bool" where
  "already_sent st aid nid = (filter (\<lambda>r. r = (aid, nid)) (alerts_sent st) \<noteq> [])"

text \<open>
  Modelled from the spec: the declaration of the table \<^verbatim>\<open>alerts_sent\<close> is not among the
  sources; the spec gives it at most one record per (alert, notice) pair, a duplicate
  write being ignored, which is what the \<^verbatim>\<open>except\<close> of \<^verbatim>\<open>mark_sent\<close> expects.
\<close>

definition mark_sent :: "state \<Rightarrow> int \<Rightarrow> int \<Rightarrow> state" where
  "mark_sent st aid nid =
     (if (aid, nid) \<in> set (alerts_sent st) then st
      else st\<lparr>alerts_sent := alerts_sent st @ [(aid, nid)]\<rparr>)"


section \<open>Immediate notification (\<^verbatim>\<open>notify_if_matches\<close>)\<close>

text \<open>The source filter and the keyword filter at the head of the loop body.\<close>

definition matches_immediate :: "alert \<Rightarrow> notice \<Rightarrow> bool" where
  "matches_immediate a n =
     (let source = upper (n_source n);
          t_title = lower (n_title n);
          alert_source = upper (or_empty (a_source a))
      in if alert_source \<noteq> [] \<and> alert_source \<noteq> source then False
         else let kw = strip (or_empty (a_keyword a))
              in if kw \<noteq> [] \<and> \<not> str_in (lower kw) t_title then False else True)"

text \<open>\<^verbatim>\<open>a.get("frequency") or "immediate"\<close>\<close>

definition freq_or_immediate :: "alert \<Rightarrow> string" where
  "freq_or_immediate a =
     (case a_frequency a of None \<Rightarrow> ''immediate'' | Some f \<Rightarrow> if f = [] then ''immediate'' else f)"

definition immediate_message :: "notice \<Rightarrow> message" where
  "immediate_message n = Immediate (upper (n_source n)) (n_title n) (n_link n) (n_date n)"

text \<open>The body of the loop over the active alerts; each \<^verbatim>\<open>continue\<close> leaves the state
  as it is.\<close>

definition notify_alert :: "env \<Rightarrow> notice \<Rightarrow> state \<Rightarrow> alert \<Rightarrow> state" where
  "notify_alert e n st a =
     (if \<not> matches_immediate a n then st
      else if freq_or_immediate a \<noteq> ''immediate'' then st
      else if already_sent st (a_id a) (n_id n) then st
      else
        let (sent, st1) =
              (if a_channel a = ''whatsapp''
                 then send_logged (send_whatsapp e) ''whatsapp'' (a_user_identifier a)
                        (immediate_message n) st
               else if a_channel a = ''telegram''
                 then send_logged (send_telegram e) ''telegram'' (a_user_identifier a)
                        (immediate_message n) st
               else (False, st))
        in if sent then mark_sent st1 (a_id a) (n_id n) else st1)"

definition notify_if_matches :: "env \<Rightarrow> notice \<Rightarrow> state \<Rightarrow> state" where
  "notify_if_matches e n st =
     (let st0 = st\<lparr>notified := notified st @ [n]\<rparr>
      in foldl (notify_alert e n) st0 (get_active_alerts st0))"


section \<open>Daily digest (\<^verbatim>\<open>scheduler.py\<close>)\<close>

text \<open>\<^verbatim>\<open>datetime.now()\<close>: a calendar date and the seconds elapsed in that day.\<close>

record datetime =
  dt_date :: date
  dt_seconds :: nat

text \<open>\<^verbatim>\<open>(now - timedelta(days=1)).date()\<close>\<close>

definition since_of :: "datetime \<Rightarrow> date" where
  "since_of now = dt_date now - 1"

text \<open>\<^verbatim>\<open>SELECT ... FROM notices WHERE date >= since ORDER BY date DESC\<close>\<close>

definition fetch_recent_notices :: "date \<Rightarrow> state \<Rightarrow> notice list" where
  "fetch_recent_notices since_date st =
     sort_key (\<lambda>n. - n_date n) (filter (\<lambda>n. since_date \<le> n_date n) (notices st))"

text \<open>\<^verbatim>\<open>SELECT * FROM alerts WHERE frequency='daily' AND active=1\<close>\<close>

definition daily_alerts :: "state \<Rightarrow> alert list" where
  "daily_alerts st = filter (\<lambda>a. a_frequency a = Some ''daily'' \<and> a_active a) (alerts st)"

definition matches_daily :: "alert \<Rightarrow> notice \<Rightarrow> bool" where
  "matches_daily a n =
     (let kw = lower (strip (or_empty (a_keyword a)));
          alert_source = upper (or_empty (a_source a));
          n_source = upper (n_source n)
      in if alert_source \<noteq> [] \<and> alert_source \<noteq> n_source then False
         else if kw \<noteq> [] \<and> \<not> str_in kw (lower (n_title n)) then False
         else True)"

definition digest_matched :: "state \<Rightarrow> alert \<Rightarrow> notice list \<Rightarrow> notice list" where
  "digest_matched st a recent_notices =
     filter (\<lambda>n. matches_daily a n \<and> \<not> already_sent st (a_id a) (n_id n)) recent_notices"

definition digest_message :: "notice list \<Rightarrow> message" where
  "digest_message matched = Digest (map (\<lambda>m. (n_title m, n_link m, n_date m)) matched)"

definition mark_all_sent :: "state \<Rightarrow> int \<Rightarrow> notice list \<Rightarrow> state" where
  "mark_all_sent st aid matched = foldl (\<lambda>s m. mark_sent s aid (n_id m)) st matched"

definition digest_alert :: "env \<Rightarrow> notice list \<Rightarrow> state \<Rightarrow> alert \<Rightarrow> state" where
  "digest_alert e recent_notices st a =
     (let matched = digest_matched st a recent_notices
      in if matched = [] then st
         else
           let (sent, st1) =
                 (if a_channel a = ''telegram''
                    then send_logged (send_telegram e) ''telegram'' (a_user_identifier a)
                           (digest_message matched) st
                  else if a_channel a = ''whatsapp''
                    then send_logged (send_whatsapp e) ''whatsapp'' (a_user_identifier a)
                           (digest_message matched) st
                  else (False, st))
           in if sent then mark_all_sent st1 (a_id a) matched else st1)"

definition daily_digest :: "env \<Rightarrow> datetime \<Rightarrow> state \<Rightarrow> state" where
  "daily_digest e now st =
     (let since = since_of now;
          als = daily_alerts st
      in if als = [] then st
         else let recent_notices = fetch_recent_notices since st
              in if recent_notices = [] then st
                 else foldl (digest_alert e recent_notices) st als)"


section \<open>Storing a scraped notice\<close>

text \<open>\<^verbatim>\<open>SELECT id FROM notices WHERE link=%s OR title=%s\<close> returned a row.\<close>

definition existing :: "state \<Rightarrow> string \<Rightarrow> string \<Rightarrow> bool" where
  "existing st lnk ttl = (filter (\<lambda>n. n_link n = lnk \<or> n_title n = ttl) (notices st) \<noteq> [])"

text \<open>
  The insert, the re-selection of the new row's id by link, and the call of
  \<^verbatim>\<open>notify_if_matches\<close>: the same statements in both scrapers, with the source tag of
  each.
\<close>

definition insert_and_notify :: "env \<Rightarrow> string \<Rightarrow> state \<Rightarrow> string \<Rightarrow> string \<Rightarrow> date \<Rightarrow> state" where
  "insert_and_notify e src st ttl lnk d =
     (let st1 = st\<lparr>notices := notices st @
                      [\<lparr>n_id = next_id st, n_title = ttl, n_link = lnk, n_date = d, n_source = src\<rparr>],
                    next_id := next_id st + 1\<rparr>
      in case filter (\<lambda>n. n_link n = lnk) (notices st1) of
           [] \<Rightarrow> st1
         | r # _ \<Rightarrow>
             notify_if_matches e
               \<lparr>n_id = n_id r, n_title = ttl, n_link = lnk, n_date = d, n_source = src\<rparr> st1)"


section \<open>The PTU scraper's loop (\<^verbatim>\<open>modules/scraper_ptu.py\<close>, \<^verbatim>\<open>run\<close>)\<close>

definition PTU_BASE :: string where
  "PTU_BASE = ''https://ptu.ac.in''"

definition MAX_AGE_DAYS :: int where
  "MAX_AGE_DAYS = 30"

text \<open>What \<^verbatim>\<open>best_title_and_link_from_row\<close> returns for a table row.\<close>

record ptu_row =
  r_title :: "string option"
  r_link :: "string option"
  r_date :: "date option"

text \<open>The duplicate check and the insert at the end of the loop body.\<close>

definition ptu_check_and_insert :: "env \<Rightarrow> state \<Rightarrow> string \<Rightarrow> string \<Rightarrow> date \<Rightarrow> state" where
  "ptu_check_and_insert e st ttl lnk d =
     (if existing st lnk ttl then st else insert_and_notify e ''PTU'' st ttl lnk d)"

definition ptu_process_row :: "env \<Rightarrow> date \<Rightarrow> state \<Rightarrow> ptu_row \<Rightarrow> state" where
  "ptu_process_row e today st row =
     (let limit_date = today - MAX_AGE_DAYS
      in case r_title row of
           None \<Rightarrow> st
         | Some ttl \<Rightarrow>
             if ttl = [] \<or> strip ttl = [] then st
             else (case r_link row of
                     None \<Rightarrow> st
                   | Some raw \<Rightarrow>
                       if raw = [] then st
                       else let lnk = urljoin e PTU_BASE raw
                            in (case r_date row of
                                  None \<Rightarrow> st
                                | Some d \<Rightarrow>
                                    if d < limit_date then st
                                    else ptu_check_and_insert e st ttl lnk d)))"

definition ptu_run :: "env \<Rightarrow> date \<Rightarrow> state \<Rightarrow> ptu_row list \<Rightarrow> state" where
  "ptu_run e today st data_rows = foldl (ptu_process_row e today) st data_rows"


section \<open>The GNDEC scraper (\<^verbatim>\<open>modules/scraper_gndec.py\<close>)\<close>

text \<open>The date hint of a candidate: nothing, a \<^verbatim>\<open>datetime\<close>, a \<^verbatim>\<open>date\<close> or a string.\<close>

datatype date_hint = HNone | HDateTime datetime | HDate date | HStr string

definition hint_date :: "date_hint \<Rightarrow> date option" where
  "hint_date h =
     (case h of
        HDateTime dt \<Rightarrow> Some (dt_date dt)
      | HDate d \<Rightarrow> Some d
      | HStr s \<Rightarrow> try_extract_date_from_text s
      | HNone \<Rightarrow> None)"

definition gndec_save_item :: "env \<Rightarrow> date \<Rightarrow> state \<Rightarrow> string \<times> string \<times> date_hint \<Rightarrow> state" where
  "gndec_save_item e today st item =
     (case item of (ttl, href, hint) \<Rightarrow>
        if existing st href ttl then st
        else
          (case hint_date hint of
             Some d \<Rightarrow> insert_and_notify e ''GNDEC'' st ttl href d
           | None \<Rightarrow>
               let st1 = st\<lparr>fetched := fetched st @ [href]\<rparr>;
                   date_val = (case get_notice_date_from_page e href of
                                 Some page_date \<Rightarrow> page_date
                               | None \<Rightarrow> today)
               in insert_and_notify e ''GNDEC'' st1 ttl href date_val))"

definition save_notices :: "env \<Rightarrow> date \<Rightarrow> state \<Rightarrow> (string \<times> string \<times> date_hint) list \<Rightarrow> state" where
  "save_notices e today st notice_items = foldl (gndec_save_item e today) st notice_items"

text \<open>
  An anchor element as \<^verbatim>\<open>extract_notices_from_soup\<close> reads it: its visible text
  (\<^verbatim>\<open>get_text(" ", strip=True)\<close>), its \<^verbatim>\<open>href\<close> attribute if it has one, and the texts
  of the \<^verbatim>\<open>span\<close>, \<^verbatim>\<open>time\<close>, \<^verbatim>\<open>small\<close> and \<^verbatim>\<open>p\<close> elements inside its parent, in
  document order. A parsed page gives the elements of each CSS selector and all its
  anchors.
\<close>

record anchor =
  an_text :: string
  an_href :: "string option"
  an_near :: "string list"

record soup =
  select :: "string \<Rightarrow> anchor list"
  find_all_a :: "anchor list"

definition selectors :: "string list" where
  "selectors =
     [''table tbody tr td a'',
      ''div.noticeboard_list a'',
      ''div.notice a'',
      ''ul.notice-list a'',
      ''div.card a'',
      ''div.page a[href*='/notice/']'',
      ''a[href*='notice']'',
      ''a[href*='/notice/']'',
      ''.post .entry-title a'',
      ''.widget_recent_entries a'']"

definition non_navigable :: "string \<Rightarrow> bool" where
  "non_navigable href =
     (startswith (lower href) ''javascript:'' \<or> startswith (lower href) ''mailto:'')"

text \<open>One element found by a selector: skipped, or a candidate.\<close>

definition selector_item :: "env \<Rightarrow> string \<Rightarrow> anchor \<Rightarrow> (string \<times> string \<times> date_hint) option" where
  "selector_item e base_url a =
     (case an_href a of
        None \<Rightarrow> None
      | Some href \<Rightarrow>
          if an_text a = [] \<or> href = [] then None
          else if non_navigable href then None
          else Some (an_text a, urljoin e base_url href,
                     (case first_some try_extract_date_from_text (take 4 (an_near a)) of
                        None \<Rightarrow> HNone
                      | Some d \<Rightarrow> HDate d)))"

fun try_selectors ::
  "env \<Rightarrow> soup \<Rightarrow> string \<Rightarrow> string list \<Rightarrow> (string \<times> string \<times> date_hint) list option" where
  "try_selectors e sp base_url [] = None"
| "try_selectors e sp base_url (sel # sels) =
     (let found_items = List.map_filter (selector_item e base_url) (select sp sel)
      in if found_items \<noteq> [] then Some found_items else try_selectors e sp base_url sels)"

text \<open>One anchor of the fallback pass over \<^verbatim>\<open>find_all("a", href=True)\<close>: skipped, or a
  candidate without a date hint.\<close>

definition fallback_item :: "env \<Rightarrow> string \<Rightarrow> anchor \<Rightarrow> (string \<times> string \<times> date_hint) option" where
  "fallback_item e base_url a =
     (case an_href a of
        None \<Rightarrow> None
      | Some href \<Rightarrow>
          if an_text a = [] then None
          else if length (an_text a) > 30 \<or> str_in ''pdf'' (lower href)
                  \<or> str_in ''notice'' (lower href) \<or> str_in ''circular'' (lower href)
               then (if non_navigable href then None
                     else Some (an_text a, urljoin e base_url href, HNone))
               else None)"

definition fallback_scan :: "env \<Rightarrow> soup \<Rightarrow> string \<Rightarrow> (string \<times> string \<times> date_hint) list" where
  "fallback_scan e sp base_url = List.map_filter (fallback_item e base_url) (find_all_a sp)"

definition extract_notices_from_soup ::
  "env \<Rightarrow> soup \<Rightarrow> string \<Rightarrow> (string \<times> string \<times> date_hint) list" where
  "extract_notices_from_soup e sp base_url =
     (case try_selectors e sp base_url selectors of
        Some found_items \<Rightarrow> found_items
      | None \<Rightarrow> fallback_scan e sp base_url)"


section \<open>The claims of the specification, in its own words\<close>

text \<open>
  The matcher as the specification words it: the source filter is absent or empty, or
  equals the notice's source without regard to case; and the keyword is absent or empty,
  or occurs in the title without regard to case.
\<close>

definition ci_equal :: "string \<Rightarrow> string \<Rightarrow> bool" where
  "ci_equal x y = (lower x = lower y)"

definition ci_substring :: "string \<Rightarrow> string \<Rightarrow> bool" where
  "ci_substring k t = str_in (lower k) (lower t)"

definition spec_matches :: "alert \<Rightarrow> notice \<Rightarrow> bool" where
  "spec_matches a n =
     ((or_empty (a_source a) = [] \<or> ci_equal (or_empty (a_source a)) (n_source n)) \<and>
      (or_empty (a_keyword a) = [] \<or> ci_substring (or_empty (a_keyword a)) (n_title n)))"

text \<open>
  A calendar date falls within the 24 hours before the run when some instant of that
  day lies between the run's instant minus 24 hours and the run's instant (instants in
  seconds).
\<close>

definition instant :: "datetime \<Rightarrow> int" where
  "instant t = dt_date t * 86400 + int (dt_seconds t)"

definition spec_within_prior_24h :: "datetime \<Rightarrow> date \<Rightarrow> bool" where
  "spec_within_prior_24h now d =
     (d * 86400 \<le> instant now \<and> instant now - 86400 < (d + 1) * 86400)"

text \<open>
  The fallback pass as the specification words it: the visible text is longer than 30
  characters or the target contains one of the three words, and the target is navigable.
\<close>

definition spec_fallback_accepts :: "anchor \<Rightarrow> bool" where
  "spec_fallback_accepts a =
     (let href = or_empty (an_href a)
      in (length (an_text a) > 30 \<or> str_in ''pdf'' (lower href)
          \<or> str_in ''notice'' (lower href) \<or> str_in ''circular'' (lower href))
         \<and> \<not> non_navigable href)"


section \<open>Auxiliary notions\<close>

text \<open>The send call that the loop body makes for an alert of a known channel.\<close>

definition whatsapp_call :: "env \<Rightarrow> state \<Rightarrow> alert \<Rightarrow> message \<Rightarrow> send_call" where
  "whatsapp_call e st a m =
     \<lparr>sc_channel = ''whatsapp'', sc_to = a_user_identifier a, sc_text = m,
      sc_ok = send_whatsapp e (length (outbox st)) (a_user_identifier a) m\<rparr>"

definition telegram_call :: "env \<Rightarrow> state \<Rightarrow> alert \<Rightarrow> message \<Rightarrow> send_call" where
  "telegram_call e st a m =
     \<lparr>sc_channel = ''telegram'', sc_to = a_user_identifier a, sc_text = m,
      sc_ok = send_telegram e (length (outbox st)) (a_user_identifier a) m\<rparr>"

definition call_of :: "env \<Rightarrow> state \<Rightarrow> alert \<Rightarrow> message \<Rightarrow> send_call" where
  "call_of e st a m =
     (if a_channel a = ''whatsapp'' then whatsapp_call e st a m else telegram_call e st a m)"

definition known_channel :: "alert \<Rightarrow> bool" where
  "known_channel a = (a_channel a = ''telegram'' \<or> a_channel a = ''whatsapp'')"


text \<open>A frequency that is none of absent, empty, "immediate" and "daily".\<close>

definition other_frequency :: "alert \<Rightarrow> bool" where
  "other_frequency a =
     (a_frequency a \<noteq> None \<and> a_frequency a \<noteq> Some [] \<and>
      a_frequency a \<noteq> Some ''immediate'' \<and> a_frequency a \<noteq> Some ''daily'')"


text \<open>The row that an insert adds to the table of notices.\<close>

definition new_row :: "state \<Rightarrow> string \<Rightarrow> string \<Rightarrow> string \<Rightarrow> date \<Rightarrow> notice" where
  "new_row st src ttl lnk d =
     \<lparr>n_id = next_id st, n_title = ttl, n_link = lnk, n_date = d, n_source = src\<rparr>"


text \<open>The usable anchors that one selector finds on a page.\<close>

definition selector_candidates :: "env \<Rightarrow> soup \<Rightarrow> string \<Rightarrow> string \<Rightarrow> (string \<times> string \<times> date_hint) list" where
  "selector_candidates e sp base_url sel = List.map_filter (selector_item e base_url) (select sp sel)"


section \<open>Example data\<close>

text \<open>
  An environment whose channels accept every message, and one whose channels are down.
  In both, no notice page gives a date, and a link is joined to its base by appending
  it, which is what \<^verbatim>\<open>urljoin\<close> does for a base without a path and a link that is an
  absolute path. The dates are ordinals: 739583 is 28 November 2025.
\<close>

definition ex_env :: env where
  "ex_env = \<lparr>send_whatsapp = (\<lambda>_ _ _. True), send_telegram = (\<lambda>_ _ _. True),
             get_notice_date_from_page = (\<lambda>_. None), urljoin = (\<lambda>b l. b @ l)\<rparr>"

definition ex_env_down :: env where
  "ex_env_down = \<lparr>send_whatsapp = (\<lambda>_ _ _. False), send_telegram = (\<lambda>_ _ _. False),
             get_notice_date_from_page = (\<lambda>_. None), urljoin = (\<lambda>b l. b @ l)\<rparr>"

definition ex_notice :: notice where
  "ex_notice = \<lparr>n_id = 7, n_title = ''Mid-term Exam Schedule'', n_link = ''https://ptu.ac.in/n/7'',
                n_date = 739583, n_source = ''PTU''\<rparr>"

definition ex_notice2 :: notice where
  "ex_notice2 = \<lparr>n_id = 8, n_title = ''Exam Fee Notice'', n_link = ''https://ptu.ac.in/n/8'',
                n_date = 739582, n_source = ''PTU''\<rparr>"

definition ex_alert :: alert where
  "ex_alert = \<lparr>a_id = 1, a_user_identifier = ''42'', a_channel = ''telegram'',
               a_keyword = Some ''exam'', a_source = Some ''PTU'', a_frequency = None,
               a_active = True\<rparr>"

definition ex_daily :: alert where
  "ex_daily = \<lparr>a_id = 2, a_user_identifier = ''whatsapp:+910000000000'', a_channel = ''whatsapp'',
               a_keyword = Some ''exam'', a_source = Some ''ptu'', a_frequency = Some ''daily'',
               a_active = True\<rparr>"

definition ex_sms :: alert where
  "ex_sms = \<lparr>a_id = 3, a_user_identifier = ''+910000000000'', a_channel = ''sms'',
               a_keyword = None, a_source = None, a_frequency = Some ''daily'',
               a_active = True\<rparr>"

definition ex_state :: state where
  "ex_state = \<lparr>notices = [ex_notice, ex_notice2], next_id = 9, alerts = [ex_alert, ex_daily],
               alerts_sent = [], outbox = [], notified = [], fetched = []\<rparr>"

definition ex_now :: datetime where
  "ex_now = \<lparr>dt_date = 739583, dt_seconds = 64800\<rparr>"


definition ex_weekly :: alert where
  "ex_weekly = \<lparr>a_id = 4, a_user_identifier = ''42'', a_channel = ''telegram'',
               a_keyword = None, a_source = None, a_frequency = Some ''weekly'',
               a_active = True\<rparr>"


definition ex_state_weekly :: state where
  "ex_state_weekly = \<lparr>notices = [ex_notice, ex_notice2], next_id = 9, alerts = [ex_weekly],
               alerts_sent = [], outbox = [], notified = [], fetched = []\<rparr>"

definition ex_padded :: alert where
  "ex_padded = \<lparr>a_id = 5, a_user_identifier = ''42'', a_channel = ''telegram'',
               a_keyword = Some '' exam'', a_source = None, a_frequency = None,
               a_active = True\<rparr>"

definition ex_short :: notice where
  "ex_short = \<lparr>n_id = 9, n_title = ''Exam'', n_link = ''https://ptu.ac.in/n/9'',
               n_date = 739583, n_source = ''PTU''\<rparr>"

definition ex_gndec :: notice where
  "ex_gndec = \<lparr>n_id = 10, n_title = ''Exam Schedule'', n_link = ''https://erp.gndec.ac.in/n/10'',
               n_date = 739583, n_source = ''GNDEC''\<rparr>"

definition ex_future :: notice where
  "ex_future = \<lparr>n_id = 11, n_title = ''Exam Form Last Date'', n_link = ''https://ptu.ac.in/n/11'',
               n_date = 739590, n_source = ''PTU''\<rparr>"

definition ex_state_future :: state where
  "ex_state_future = \<lparr>notices = [ex_future], next_id = 12, alerts = [ex_daily],
               alerts_sent = [], outbox = [], notified = [], fetched = []\<rparr>"


definition ex_today :: date where
  "ex_today = 739583"

definition ex_store_empty :: state where
  "ex_store_empty = \<lparr>notices = [], next_id = 1, alerts = [ex_alert], alerts_sent = [],
                     outbox = [], notified = [], fetched = []\<rparr>"

definition ex_row_known :: ptu_row where
  "ex_row_known = \<lparr>r_title = Some ''Mid-term Exam Schedule'', r_link = Some ''/n/7'',
                   r_date = Some 739583\<rparr>"

definition ex_row_boundary :: ptu_row where
  "ex_row_boundary = \<lparr>r_title = Some ''Result Notice'', r_link = Some ''/n/20'',
                      r_date = Some 739553\<rparr>"

definition ex_row_old :: ptu_row where
  "ex_row_old = \<lparr>r_title = Some ''Result Notice'', r_link = Some ''/n/20'',
                 r_date = Some 739552\<rparr>"

definition ex_row_undated :: ptu_row where
  "ex_row_undated = \<lparr>r_title = Some ''Result Notice'', r_link = Some ''/n/20'',
                     r_date = None\<rparr>"


definition ex_base :: string where
  "ex_base = ''https://erp.gndec.ac.in''"

definition ex_anchor_image :: anchor where
  "ex_anchor_image = \<lparr>an_text = [], an_href = Some ''/files/date-sheet.pdf'', an_near = []\<rparr>"

definition ex_anchor_script :: anchor where
  "ex_anchor_script = \<lparr>an_text = ''Open'', an_href = Some ''JavaScript:void(0)'', an_near = []\<rparr>"

definition ex_anchor_one :: anchor where
  "ex_anchor_one = \<lparr>an_text = ''Date sheet'', an_href = Some ''/notice/12'', an_near = []\<rparr>"

definition ex_anchor_two :: anchor where
  "ex_anchor_two = \<lparr>an_text = ''Holiday'', an_href = Some ''/notice/13'', an_near = []\<rparr>"

definition ex_anchor_home :: anchor where
  "ex_anchor_home = \<lparr>an_text = ''Home'', an_href = Some ''/index'', an_near = []\<rparr>"

definition ex_soup :: soup where
  "ex_soup = \<lparr>select = (\<lambda>sel. if sel = ''table tbody tr td a'' then [ex_anchor_script]
                            else if sel = ''div.notice a'' then [ex_anchor_one]
                            else if sel = ''a[href*='notice']'' then [ex_anchor_one, ex_anchor_two]
                            else []),
              find_all_a = [ex_anchor_script, ex_anchor_one, ex_anchor_two, ex_anchor_home]\<rparr>"

definition ex_soup_plain :: soup where
  "ex_soup_plain = \<lparr>select = (\<lambda>sel. []),
                    find_all_a = [ex_anchor_image, ex_anchor_one, ex_anchor_home]\<rparr>"


section \<open>Facts about the text primitives and the matcher\<close>

lemma lower_upper_char: "lower_char (upper_char c) = lower_char c"
  by (auto simp: lower_char_def upper_char_def is_upper_def is_lower_def in_range_def)

lemma upper_lower_char: "upper_char (lower_char c) = upper_char c"
  by (auto simp: lower_char_def upper_char_def is_upper_def is_lower_def in_range_def)

lemma lower_upper: "lower (upper s) = lower s"
  by (simp add: lower_def upper_def lower_upper_char)

lemma upper_lower: "upper (lower s) = upper s"
  by (simp add: lower_def upper_def upper_lower_char)

lemma upper_eq_iff: "upper x = upper y \<longleftrightarrow> lower x = lower y"
  by (metis lower_upper upper_lower)

lemma startswith_iff: "startswith s p \<longleftrightarrow> (\<exists>q. s = p @ q)"
  unfolding startswith_def
  by (metis append_eq_conv_conj append_take_drop_id)

lemma str_in_iff: "str_in k t \<longleftrightarrow> (\<exists>p q. t = p @ k @ q)"
proof (induction t)
  case Nil
  then show ?case by auto
next
  case (Cons c cs)
  show ?case
  proof
    assume "str_in k (c # cs)"
    then consider "startswith (c # cs) k" | "str_in k cs" by auto
    then show "\<exists>p q. c # cs = p @ k @ q"
    proof cases
      case 1
      then obtain q where "c # cs = k @ q" using startswith_iff by blast
      then have "c # cs = [] @ k @ q" by simp
      then show ?thesis by blast
    next
      case 2
      then obtain p q where "cs = p @ k @ q" using Cons.IH by blast
      then have "c # cs = (c # p) @ k @ q" by simp
      then show ?thesis by blast
    qed
  next
    assume "\<exists>p q. c # cs = p @ k @ q"
    then obtain p q where pq: "c # cs = p @ k @ q" by blast
    show "str_in k (c # cs)"
    proof (cases p)
      case Nil
      with pq have "startswith (c # cs) k" using startswith_iff by auto
      then show ?thesis by simp
    next
      case (Cons x p')
      with pq have "cs = p' @ k @ q" by simp
      then have "str_in k cs" using Cons.IH by blast
      then show ?thesis by simp
    qed
  qed
qed

lemma lower_eq_Nil: "lower s = [] \<longleftrightarrow> s = []"
  by (simp add: lower_def)

lemma upper_eq_Nil: "upper s = [] \<longleftrightarrow> s = []"
  by (simp add: upper_def)

lemma matches_daily_eq: "matches_daily a n = matches_immediate a n"
  by (simp add: matches_daily_def matches_immediate_def Let_def lower_eq_Nil)

lemma matches_immediate_iff:
  "matches_immediate a n \<longleftrightarrow>
     (or_empty (a_source a) = [] \<or> ci_equal (or_empty (a_source a)) (n_source n)) \<and>
     (strip (or_empty (a_keyword a)) = [] \<or>
      ci_substring (strip (or_empty (a_keyword a))) (n_title n))"
  by (auto simp: matches_immediate_def Let_def ci_equal_def ci_substring_def upper_eq_iff upper_eq_Nil)


section \<open>Facts about the ledger and the two loops\<close>

lemma mark_sent_other [simp]:
  "notices (mark_sent st x y) = notices st"
  "next_id (mark_sent st x y) = next_id st"
  "alerts (mark_sent st x y) = alerts st"
  "outbox (mark_sent st x y) = outbox st"
  "notified (mark_sent st x y) = notified st"
  "fetched (mark_sent st x y) = fetched st"
  by (simp_all add: mark_sent_def)

lemma set_mark_sent [simp]:
  "set (alerts_sent (mark_sent st x y)) = insert (x, y) (set (alerts_sent st))"
  by (auto simp: mark_sent_def)

lemma already_sent_iff: "already_sent st x y \<longleftrightarrow> (x, y) \<in> set (alerts_sent st)"
  by (auto simp: already_sent_def filter_empty_conv)

lemma mark_sent_fresh:
  "\<not> already_sent st x y \<Longrightarrow> alerts_sent (mark_sent st x y) = alerts_sent st @ [(x, y)]"
  by (simp add: mark_sent_def already_sent_iff)

lemma call_of_simps [simp]:
  "sc_to (call_of e st a m) = a_user_identifier a"
  "sc_text (call_of e st a m) = m"
  by (simp_all add: call_of_def whatsapp_call_def telegram_call_def)

text \<open>The three ways the body of the immediate loop can end.\<close>

lemma notify_alert_eq:
  "notify_alert e n st a =
     (if \<not> matches_immediate a n \<or> freq_or_immediate a \<noteq> ''immediate'' \<or>
         already_sent st (a_id a) (n_id n) \<or>
         (a_channel a \<noteq> ''whatsapp'' \<and> a_channel a \<noteq> ''telegram'') then st
      else if sc_ok (call_of e st a (immediate_message n))
        then mark_sent (st\<lparr>outbox := outbox st @ [call_of e st a (immediate_message n)]\<rparr>)
               (a_id a) (n_id n)
        else st\<lparr>outbox := outbox st @ [call_of e st a (immediate_message n)]\<rparr>)"
  by (simp add: notify_alert_def send_logged_def Let_def call_of_def whatsapp_call_def
      telegram_call_def)

lemma digest_alert_eq:
  "digest_alert e rs st a =
     (if digest_matched st a rs = [] \<or>
         (a_channel a \<noteq> ''whatsapp'' \<and> a_channel a \<noteq> ''telegram'') then st
      else if sc_ok (call_of e st a (digest_message (digest_matched st a rs)))
        then mark_all_sent
               (st\<lparr>outbox := outbox st @ [call_of e st a (digest_message (digest_matched st a rs))]\<rparr>)
               (a_id a) (digest_matched st a rs)
        else st\<lparr>outbox := outbox st @ [call_of e st a (digest_message (digest_matched st a rs))]\<rparr>)"
  by (simp add: digest_alert_def send_logged_def Let_def call_of_def whatsapp_call_def
      telegram_call_def)

lemma mark_all_sent_other [simp]:
  "notices (mark_all_sent st x ms) = notices st"
  "next_id (mark_all_sent st x ms) = next_id st"
  "alerts (mark_all_sent st x ms) = alerts st"
  "outbox (mark_all_sent st x ms) = outbox st"
  "notified (mark_all_sent st x ms) = notified st"
  "fetched (mark_all_sent st x ms) = fetched st"
  unfolding mark_all_sent_def
  by (induction ms arbitrary: st; simp)+

lemma set_mark_all_sent [simp]:
  "set (alerts_sent (mark_all_sent st x ms)) = set (alerts_sent st) \<union> (\<lambda>m. (x, n_id m)) ` set ms"
  unfolding mark_all_sent_def
  by (induction ms arbitrary: st) auto

lemma notify_alert_other [simp]:
  "notices (notify_alert e n st a) = notices st"
  "next_id (notify_alert e n st a) = next_id st"
  "alerts (notify_alert e n st a) = alerts st"
  "notified (notify_alert e n st a) = notified st"
  "fetched (notify_alert e n st a) = fetched st"
  by (simp_all add: notify_alert_eq)

lemma digest_alert_other [simp]:
  "notices (digest_alert e rs st a) = notices st"
  "next_id (digest_alert e rs st a) = next_id st"
  "alerts (digest_alert e rs st a) = alerts st"
  "notified (digest_alert e rs st a) = notified st"
  "fetched (digest_alert e rs st a) = fetched st"
  by (simp_all add: digest_alert_eq)

lemma foldl_notify_other [simp]:
  "notices (foldl (notify_alert e n) st as) = notices st"
  "next_id (foldl (notify_alert e n) st as) = next_id st"
  "alerts (foldl (notify_alert e n) st as) = alerts st"
  "notified (foldl (notify_alert e n) st as) = notified st"
  "fetched (foldl (notify_alert e n) st as) = fetched st"
  by (induction as arbitrary: st; simp)+

lemma notify_if_matches_other [simp]:
  "notices (notify_if_matches e n st) = notices st"
  "next_id (notify_if_matches e n st) = next_id st"
  "alerts (notify_if_matches e n st) = alerts st"
  "notified (notify_if_matches e n st) = notified st @ [n]"
  "fetched (notify_if_matches e n st) = fetched st"
  by (simp_all add: notify_if_matches_def Let_def)

text \<open>A run of either loop: the ledger changes only if some send of the run succeeded.\<close>

lemma notify_alert_step:
  "\<exists>new. outbox (notify_alert e n st a) = outbox st @ new \<and>
     (alerts_sent (notify_alert e n st a) \<noteq> alerts_sent st \<longrightarrow> (\<exists>c\<in>set new. sc_ok c))"
  by (simp add: notify_alert_eq)

lemma digest_alert_step:
  "\<exists>new. outbox (digest_alert e rs st a) = outbox st @ new \<and>
     (alerts_sent (digest_alert e rs st a) \<noteq> alerts_sent st \<longrightarrow> (\<exists>c\<in>set new. sc_ok c))"
  by (simp add: digest_alert_eq)

lemma foldl_ledger:
  assumes step: "\<And>s x. \<exists>new. outbox (f s x) = outbox s @ new \<and>
     (alerts_sent (f s x) \<noteq> alerts_sent s \<longrightarrow> (\<exists>c\<in>set new. sc_ok c))"
  shows "\<exists>new. outbox (foldl f st xs) = outbox st @ new \<and>
     (alerts_sent (foldl f st xs) \<noteq> alerts_sent st \<longrightarrow> (\<exists>c\<in>set new. sc_ok c))"
proof (induction xs arbitrary: st)
  case Nil
  then show ?case by simp
next
  case (Cons x xs)
  obtain n1 where n1: "outbox (f st x) = outbox st @ n1"
    "alerts_sent (f st x) \<noteq> alerts_sent st \<longrightarrow> (\<exists>c\<in>set n1. sc_ok c)"
    using step by blast
  obtain n2 where n2: "outbox (foldl f (f st x) xs) = outbox (f st x) @ n2"
    "alerts_sent (foldl f (f st x) xs) \<noteq> alerts_sent (f st x) \<longrightarrow> (\<exists>c\<in>set n2. sc_ok c)"
    using Cons.IH by blast
  have "outbox (foldl f st (x # xs)) = outbox st @ (n1 @ n2)"
    using n1 n2 by simp
  moreover have "alerts_sent (foldl f st (x # xs)) \<noteq> alerts_sent st \<longrightarrow>
      (\<exists>c\<in>set (n1 @ n2). sc_ok c)"
    using n1 n2 by auto
  ultimately show ?case by blast
qed

lemma new_calls: "outbox st' = outbox st @ new \<Longrightarrow> drop (length (outbox st)) (outbox st') = new"
  by simp

lemma notify_run_ledger:
  "alerts_sent (notify_if_matches e n st) \<noteq> alerts_sent st \<Longrightarrow>
     \<exists>c\<in>set (drop (length (outbox st)) (outbox (notify_if_matches e n st))). sc_ok c"
proof -
  assume ch: "alerts_sent (notify_if_matches e n st) \<noteq> alerts_sent st"
  let ?st0 = "st\<lparr>notified := notified st @ [n]\<rparr>"
  obtain new where new: "outbox (foldl (notify_alert e n) ?st0 (get_active_alerts ?st0)) = outbox ?st0 @ new"
    "alerts_sent (foldl (notify_alert e n) ?st0 (get_active_alerts ?st0)) \<noteq> alerts_sent ?st0
       \<longrightarrow> (\<exists>c\<in>set new. sc_ok c)"
    using foldl_ledger [of "notify_alert e n", OF notify_alert_step] by blast
  from new ch show ?thesis
    by (simp add: notify_if_matches_def Let_def)
qed

lemma digest_run_ledger:
  "alerts_sent (daily_digest e now st) \<noteq> alerts_sent st \<Longrightarrow>
     \<exists>c\<in>set (drop (length (outbox st)) (outbox (daily_digest e now st))). sc_ok c"
proof -
  assume ch: "alerts_sent (daily_digest e now st) \<noteq> alerts_sent st"
  let ?rs = "fetch_recent_notices (since_of now) st"
  obtain new where new: "outbox (foldl (digest_alert e ?rs) st (daily_alerts st)) = outbox st @ new"
    "alerts_sent (foldl (digest_alert e ?rs) st (daily_alerts st)) \<noteq> alerts_sent st
       \<longrightarrow> (\<exists>c\<in>set new. sc_ok c)"
    using foldl_ledger [of "digest_alert e ?rs", OF digest_alert_step] by blast
  from new ch show ?thesis
    by (auto simp: daily_digest_def Let_def split: if_splits)
qed







lemma digest_matched_Nil [simp]: "digest_matched st a [] = []"
  by (simp add: digest_matched_def)





section \<open>The example data evaluated\<close>

lemma ex_matches:
  "matches_immediate ex_alert ex_notice"
  "matches_immediate ex_daily ex_notice"
  "matches_immediate ex_daily ex_notice2"
  "matches_immediate ex_sms ex_notice"
  "matches_immediate ex_sms ex_notice2"
  by code_simp+

lemma ex_freq: "freq_or_immediate ex_alert = ''immediate''"
  by (simp add: freq_or_immediate_def ex_alert_def)

lemma ex_state_fields [simp]:
  "outbox ex_state = []" "alerts_sent ex_state = []"
  "notices ex_state = [ex_notice, ex_notice2]" "alerts ex_state = [ex_alert, ex_daily]"
  by (simp_all add: ex_state_def)

lemma ex_ids [simp]:
  "n_id ex_notice = 7" "n_id ex_notice2 = 8" "a_id ex_alert = 1" "a_id ex_daily = 2" "a_id ex_sms = 3"
  "n_date ex_notice = 739583" "n_date ex_notice2 = 739582"
  by (simp_all add: ex_notice_def ex_notice2_def ex_alert_def ex_daily_def ex_sms_def)

lemma ex_channels [simp]:
  "a_channel ex_alert = ''telegram''" "a_channel ex_daily = ''whatsapp''" "a_channel ex_sms = ''sms''"
  "a_user_identifier ex_alert = ''42''" "a_user_identifier ex_daily = ''whatsapp:+910000000000''"
  by (simp_all add: ex_alert_def ex_daily_def ex_sms_def)

lemma ex_selected [simp]:
  "a_active ex_alert" "a_active ex_daily" "a_frequency ex_alert = None"
  "a_frequency ex_daily = Some ''daily''"
  by (simp_all add: ex_alert_def ex_daily_def)

lemma ex_send [simp]:
  "send_telegram ex_env k r m" "send_whatsapp ex_env k r m"
  "\<not> send_telegram ex_env_down k r m" "\<not> send_whatsapp ex_env_down k r m"
  by (simp_all add: ex_env_def ex_env_down_def)

lemma ex_immediate_sent:
  "alerts_sent (notify_alert ex_env ex_notice ex_state ex_alert) = [(1, 7)]"
  "outbox (notify_alert ex_env ex_notice ex_state ex_alert) =
     [\<lparr>sc_channel = ''telegram'', sc_to = ''42'', sc_text = immediate_message ex_notice,
       sc_ok = True\<rparr>]"
  by (simp_all add: notify_alert_eq ex_matches ex_freq already_sent_iff call_of_def
      telegram_call_def mark_sent_def)

lemma ex_immediate_failed:
  "alerts_sent (notify_alert ex_env_down ex_notice ex_state ex_alert) = []"
  "outbox (notify_alert ex_env_down ex_notice ex_state ex_alert) =
     [\<lparr>sc_channel = ''telegram'', sc_to = ''42'', sc_text = immediate_message ex_notice,
       sc_ok = False\<rparr>]"
  by (simp_all add: notify_alert_eq ex_matches ex_freq already_sent_iff call_of_def
      telegram_call_def mark_sent_def)

lemma ex_recent: "fetch_recent_notices (since_of ex_now) ex_state = [ex_notice, ex_notice2]"
  by (simp add: fetch_recent_notices_def since_of_def ex_now_def)

lemma ex_daily_alerts: "daily_alerts ex_state = [ex_daily]"
  by (simp add: daily_alerts_def)

lemma ex_matched: "digest_matched ex_state ex_daily [ex_notice, ex_notice2] = [ex_notice, ex_notice2]"
  by (simp add: digest_matched_def matches_daily_eq ex_matches already_sent_iff)

lemma ex_digest_sent:
  "alerts_sent (digest_alert ex_env [ex_notice, ex_notice2] ex_state ex_daily) = [(2, 7), (2, 8)]"
  "outbox (digest_alert ex_env [ex_notice, ex_notice2] ex_state ex_daily) =
     [\<lparr>sc_channel = ''whatsapp'', sc_to = ''whatsapp:+910000000000'',
       sc_text = digest_message [ex_notice, ex_notice2], sc_ok = True\<rparr>]"
  by (simp_all add: digest_alert_eq ex_matched call_of_def whatsapp_call_def mark_all_sent_def
      mark_sent_def)

lemma ex_digest_failed:
  "alerts_sent (digest_alert ex_env_down [ex_notice, ex_notice2] ex_state ex_daily) = []"
  "outbox (digest_alert ex_env_down [ex_notice, ex_notice2] ex_state ex_daily) =
     [\<lparr>sc_channel = ''whatsapp'', sc_to = ''whatsapp:+910000000000'',
       sc_text = digest_message [ex_notice, ex_notice2], sc_ok = False\<rparr>]"
  by (simp_all add: digest_alert_eq ex_matched call_of_def whatsapp_call_def mark_all_sent_def
      mark_sent_def)

lemma ex_run_sent:
  "alerts_sent (daily_digest ex_env ex_now ex_state) = [(2, 7), (2, 8)]"
  "length (outbox (daily_digest ex_env ex_now ex_state)) = 1"
  by (simp_all add: daily_digest_def Let_def ex_daily_alerts ex_recent ex_digest_sent)

lemma ex_sms_matched: "digest_matched ex_state ex_sms [ex_notice, ex_notice2] = [ex_notice, ex_notice2]"
  by (simp add: digest_matched_def matches_daily_eq ex_matches already_sent_iff)

lemma ex_sms_digest:
  "digest_alert ex_env [ex_notice, ex_notice2] ex_state ex_sms = ex_state"
  by (simp add: digest_alert_eq)


lemma ex_sms_selected [simp]:
  "a_active ex_sms" "a_frequency ex_sms = Some ''daily''" "\<not> known_channel ex_sms"
  by (simp_all add: ex_sms_def known_channel_def)

lemma ex_daily_known [simp]: "known_channel ex_daily"
  by (simp add: known_channel_def)

lemma ex_notify_run:
  "alerts_sent (notify_if_matches ex_env ex_notice ex_state) = [(1, 7)]"
  by (simp add: notify_if_matches_def Let_def get_active_alerts_def notify_alert_eq ex_matches
      ex_freq already_sent_iff call_of_def telegram_call_def mark_sent_def freq_or_immediate_def)


section \<open>Facts about the frequency of an alert\<close>

lemma strip_Nil [simp]: "strip [] = []"
  by (simp add: strip_def)

lemma or_empty_simps [simp]: "or_empty None = []" "or_empty (Some s) = s"
  by (simp_all add: or_empty_def)

lemma matches_immediate_frequency [simp]:
  "matches_immediate (a\<lparr>a_frequency := f\<rparr>) n = matches_immediate a n"
  by (simp add: matches_immediate_def)

lemma foldl_identity: "(\<And>s x. x \<in> set xs \<Longrightarrow> f s x = s) \<Longrightarrow> foldl f st xs = st"
  by (induction xs arbitrary: st) simp_all

lemma notify_alert_not_immediate:
  "freq_or_immediate a \<noteq> ''immediate'' \<Longrightarrow> notify_alert e n st a = st"
  by (simp add: notify_alert_eq)

lemma daily_alerts_iff:
  "a \<in> set (daily_alerts st) \<longleftrightarrow> a \<in> set (alerts st) \<and> a_active a \<and> a_frequency a = Some ''daily''"
  by (auto simp: daily_alerts_def)

lemma other_frequency_not_immediate:
  "other_frequency a \<Longrightarrow> freq_or_immediate a \<noteq> ''immediate''"
  by (auto simp: other_frequency_def freq_or_immediate_def split: option.splits)

lemma notify_alert_default_frequency:
  "freq_or_immediate a = ''immediate'' \<Longrightarrow>
     notify_alert e n st a = notify_alert e n st (a\<lparr>a_frequency := Some ''immediate''\<rparr>)"
  by (simp add: notify_alert_eq freq_or_immediate_def call_of_def whatsapp_call_def
      telegram_call_def)

lemma ex_weekly_other [simp]: "other_frequency ex_weekly"
  by (simp add: other_frequency_def ex_weekly_def)

lemma ex_state_weekly_fields [simp]: "alerts ex_state_weekly = [ex_weekly]"
  by (simp add: ex_state_weekly_def)


section \<open>The matcher on the example data\<close>

lemma ex_padded_facts:
  "matches_immediate ex_padded ex_short"
  "matches_daily ex_padded ex_short"
  "\<not> spec_matches ex_padded ex_short"
  by code_simp+

lemma ex_truth_table:
  "spec_matches ex_alert ex_notice"
  "\<not> matches_immediate ex_alert ex_gndec"
  "strip ''exam'' = ''exam''"
  by code_simp+

lemma ex_filters [simp]:
  "a_source ex_sms = None" "a_keyword ex_sms = None"
  "a_source ex_alert = Some ''PTU''" "a_keyword ex_alert = Some ''exam''"
  by (simp_all add: ex_sms_def ex_alert_def)


section \<open>Facts about the digest window\<close>

lemma fetch_recent_iff:
  "n \<in> set (fetch_recent_notices since_date st) \<longleftrightarrow>
     n \<in> set (notices st) \<and> since_date \<le> n_date n"
  by (auto simp: fetch_recent_notices_def)

lemma ex_future_facts [simp]:
  "notices ex_state_future = [ex_future]" "n_date ex_future = 739590"
  "dt_date ex_now = 739583" "dt_seconds ex_now = 64800"
  by (simp_all add: ex_state_future_def ex_future_def ex_now_def)

lemma ex_future_matches: "matches_immediate ex_daily ex_future"
  by code_simp

lemma ex_state_future_fields [simp]:
  "alerts ex_state_future = [ex_daily]" "alerts_sent ex_state_future = []"
  "outbox ex_state_future = []"
  by (simp_all add: ex_state_future_def)

lemma ex_future_recent:
  "fetch_recent_notices (since_of ex_now) ex_state_future = [ex_future]"
  by (simp add: fetch_recent_notices_def since_of_def)

lemma ex_future_run:
  "map sc_text (outbox (daily_digest ex_env ex_now ex_state_future)) = [digest_message [ex_future]]"
  by (simp add: daily_digest_def Let_def daily_alerts_def ex_future_recent digest_alert_eq
      digest_matched_def matches_daily_eq ex_future_matches already_sent_iff call_of_def
      whatsapp_call_def mark_all_sent_def)


section \<open>Facts about storing a scraped notice\<close>

lemma existing_iff:
  "existing st lnk ttl \<longleftrightarrow> (\<exists>n\<in>set (notices st). n_link n = lnk \<or> n_title n = ttl)"
  by (auto simp: existing_def filter_empty_conv)

lemma insert_and_notify_fields:
  "notices (insert_and_notify e src st ttl lnk d) = notices st @ [new_row st src ttl lnk d]"
  "next_id (insert_and_notify e src st ttl lnk d) = next_id st + 1"
  "alerts (insert_and_notify e src st ttl lnk d) = alerts st"
  "fetched (insert_and_notify e src st ttl lnk d) = fetched st"
  "length (notified (insert_and_notify e src st ttl lnk d)) = length (notified st) + 1"
  by (simp_all add: insert_and_notify_def Let_def new_row_def split: list.splits)

lemma existing_after_insert:
  "existing (insert_and_notify e src st ttl lnk d) lnk ttl"
  by (simp add: existing_iff insert_and_notify_fields new_row_def)

lemma count_after_insert:
  "\<not> existing st lnk ttl \<Longrightarrow>
     filter (\<lambda>n. n_link n = lnk \<or> n_title n = ttl) (notices (insert_and_notify e src st ttl lnk d))
       = [new_row st src ttl lnk d]"
  by (simp add: insert_and_notify_fields existing_def new_row_def)

lemma ptu_check_and_insert_idem:
  "ptu_check_and_insert e (ptu_check_and_insert e st ttl lnk d) ttl lnk d' =
     ptu_check_and_insert e st ttl lnk d"
  by (simp add: ptu_check_and_insert_def existing_after_insert)

lemma ptu_process_row_existing:
  "existing st (urljoin e PTU_BASE raw) ttl \<Longrightarrow> r_title row = Some ttl \<Longrightarrow>
     r_link row = Some raw \<Longrightarrow> ptu_process_row e today st row = st"
  by (simp add: ptu_process_row_def ptu_check_and_insert_def Let_def split: option.splits)

lemma ptu_process_row_idem:
  "ptu_process_row e today (ptu_process_row e today st row) row = ptu_process_row e today st row"
  by (simp add: ptu_process_row_def Let_def ptu_check_and_insert_idem split: option.splits)

lemma gndec_save_item_existing:
  "existing st lnk ttl \<Longrightarrow> gndec_save_item e today st (ttl, lnk, hint) = st"
  by (simp add: gndec_save_item_def)

lemma gndec_save_item_existing_after:
  "existing (gndec_save_item e today st (ttl, lnk, hint)) lnk ttl"
  by (simp add: gndec_save_item_def Let_def existing_after_insert split: option.splits)

lemma gndec_save_item_idem:
  "gndec_save_item e' today' (gndec_save_item e today st (ttl, lnk, hint)) (ttl, lnk, hint') =
     gndec_save_item e today st (ttl, lnk, hint)"
  by (rule gndec_save_item_existing) (rule gndec_save_item_existing_after)

lemma gndec_save_item_new:
  "\<not> existing st lnk ttl \<Longrightarrow>
     filter (\<lambda>n. n_link n = lnk \<or> n_title n = ttl)
       (notices (gndec_save_item e today st (ttl, lnk, hint))) =
     [new_row st ''GNDEC'' ttl lnk
        (case hint_date hint of Some d \<Rightarrow> d
         | None \<Rightarrow> (case get_notice_date_from_page e lnk of Some pd \<Rightarrow> pd | None \<Rightarrow> today))]"
  by (simp add: gndec_save_item_def Let_def insert_and_notify_fields existing_def new_row_def
      split: option.splits)

lemma ex_strings:
  "strip ''Result Notice'' \<noteq> []"
  "PTU_BASE @ ''/n/7'' = ''https://ptu.ac.in/n/7''"
  "PTU_BASE @ ''/n/20'' = ''https://ptu.ac.in/n/20''"
  by code_simp+

lemma ex_urljoin [simp]: "urljoin ex_env b l = b @ l"
  by (simp add: ex_env_def)

lemma ex_page_date [simp]: "get_notice_date_from_page ex_env l = None"
  by (simp add: ex_env_def)

lemma ex_notice_fields [simp]:
  "n_title ex_notice = ''Mid-term Exam Schedule''" "n_link ex_notice = ''https://ptu.ac.in/n/7''"
  by (simp_all add: ex_notice_def)

lemma ex_store_empty_fields [simp]:
  "notices ex_store_empty = []" "next_id ex_store_empty = 1" "fetched ex_store_empty = []"
  by (simp_all add: ex_store_empty_def)

lemma ex_rows [simp]:
  "r_title ex_row_known = Some ''Mid-term Exam Schedule''" "r_link ex_row_known = Some ''/n/7''"
  "r_title ex_row_boundary = Some ''Result Notice''" "r_link ex_row_boundary = Some ''/n/20''"
  "r_date ex_row_boundary = Some 739553"
  "r_date ex_row_old = Some 739552" "r_date ex_row_undated = None"
  by (simp_all add: ex_row_known_def ex_row_boundary_def ex_row_old_def ex_row_undated_def)

lemma ex_known_existing:
  "existing ex_state ''https://ptu.ac.in/n/7'' ''Mid-term Exam Schedule''"
  "existing ex_state ''https://ptu.ac.in/other'' ''Mid-term Exam Schedule''"
  "\<not> existing ex_store_empty l t"
  by (simp_all add: existing_iff)


section \<open>Facts about the age filter and undated candidates\<close>

lemma ptu_process_row_old:
  "r_date row = Some d \<Longrightarrow> d < today - 30 \<Longrightarrow> ptu_process_row e today st row = st"
  by (simp add: ptu_process_row_def Let_def MAX_AGE_DAYS_def split: option.splits)

lemma ptu_process_row_undated:
  "r_date row = None \<Longrightarrow> ptu_process_row e today st row = st"
  by (simp add: ptu_process_row_def Let_def split: option.splits)

lemma strip_nonempty: "strip s \<noteq> [] \<Longrightarrow> s \<noteq> []"
  by (auto simp: strip_def)

lemma ptu_process_row_retained:
  "r_title row = Some ttl \<Longrightarrow> strip ttl \<noteq> [] \<Longrightarrow> r_link row = Some raw \<Longrightarrow> raw \<noteq> [] \<Longrightarrow>
   r_date row = Some d \<Longrightarrow> today - 30 \<le> d \<Longrightarrow>
   ptu_process_row e today st row = ptu_check_and_insert e st ttl (urljoin e PTU_BASE raw) d"
  by (simp add: ptu_process_row_def Let_def MAX_AGE_DAYS_def strip_nonempty)

lemma ptu_check_and_insert_new:
  "\<not> existing st lnk ttl \<Longrightarrow>
     notices (ptu_check_and_insert e st ttl lnk d) = notices st @ [new_row st ''PTU'' ttl lnk d]"
  by (simp add: ptu_check_and_insert_def insert_and_notify_fields)

lemma gndec_save_item_undated:
  "hint_date hint = None \<Longrightarrow> \<not> existing st href ttl \<Longrightarrow>
     fetched (gndec_save_item e today st (ttl, href, hint)) = fetched st @ [href] \<and>
     notices (gndec_save_item e today st (ttl, href, hint)) =
       notices st @ [new_row st ''GNDEC'' ttl href
          (case get_notice_date_from_page e href of Some pd \<Rightarrow> pd | None \<Rightarrow> today)]"
  by (simp add: gndec_save_item_def Let_def insert_and_notify_fields new_row_def)


section \<open>Facts about the extraction of the GNDEC page\<close>

lemma try_selectors_find:
  "try_selectors e sp b sels =
     (case List.find (\<lambda>s. selector_candidates e sp b s \<noteq> []) sels of
        None \<Rightarrow> None
      | Some s \<Rightarrow> Some (selector_candidates e sp b s))"
  by (induction sels) (simp_all add: selector_candidates_def Let_def)

lemma find_first:
  "\<forall>x\<in>set pre. \<not> P x \<Longrightarrow> P s \<Longrightarrow> List.find P (pre @ s # post) = Some s"
  by (induction pre) simp_all

lemma find_none: "\<forall>x\<in>set xs. \<not> P x \<Longrightarrow> List.find P xs = None"
  by (induction xs) simp_all

lemma fallback_item_iff:
  "fallback_item e b a \<noteq> None \<longleftrightarrow>
     (\<exists>href. an_href a = Some href \<and> an_text a \<noteq> [] \<and> \<not> non_navigable href \<and>
        (length (an_text a) > 30 \<or> str_in ''pdf'' (lower href) \<or>
         str_in ''notice'' (lower href) \<or> str_in ''circular'' (lower href)))"
  by (simp add: fallback_item_def split: option.splits)

lemma non_navigable_excluded:
  "an_href a = Some href \<Longrightarrow> non_navigable href \<Longrightarrow>
     selector_item e b a = None \<and> fallback_item e b a = None"
  by (simp add: selector_item_def fallback_item_def)

lemma ex_anchor_facts:
  "spec_fallback_accepts ex_anchor_image"
  "fallback_item ex_env ex_base ex_anchor_image = None"
  "fallback_item ex_env ex_base ex_anchor_home = None"
  "non_navigable ''JavaScript:void(0)''"
  "selector_item ex_env ex_base ex_anchor_one =
     Some (''Date sheet'', ''https://erp.gndec.ac.in/notice/12'', HNone)"
  "selector_item ex_env ex_base ex_anchor_two =
     Some (''Holiday'', ''https://erp.gndec.ac.in/notice/13'', HNone)"
  "fallback_item ex_env ex_base ex_anchor_one =
     Some (''Date sheet'', ''https://erp.gndec.ac.in/notice/12'', HNone)"
  by code_simp+

lemma ex_anchor_hrefs [simp]:
  "an_href ex_anchor_script = Some ''JavaScript:void(0)''"
  by (simp add: ex_anchor_script_def)

lemma ex_soup_select [simp]:
  "select ex_soup ''table tbody tr td a'' = [ex_anchor_script]"
  "select ex_soup ''div.noticeboard_list a'' = []"
  "select ex_soup ''div.notice a'' = [ex_anchor_one]"
  "select ex_soup_plain sel = []"
  "find_all_a ex_soup_plain = [ex_anchor_image, ex_anchor_one, ex_anchor_home]"
  by (simp_all add: ex_soup_def ex_soup_plain_def)

lemma ex_script_skipped: "selector_item ex_env ex_base ex_anchor_script = None"
  using non_navigable_excluded [of ex_anchor_script "''JavaScript:void(0)''"] ex_anchor_facts(4)
  by simp

lemma ex_candidates:
  "selector_candidates ex_env ex_soup ex_base ''table tbody tr td a'' = []"
  "selector_candidates ex_env ex_soup ex_base ''div.noticeboard_list a'' = []"
  "selector_candidates ex_env ex_soup ex_base ''div.notice a'' =
     [(''Date sheet'', ''https://erp.gndec.ac.in/notice/12'', HNone)]"
  "selector_candidates ex_env ex_soup_plain ex_base sel = []"
  by (simp_all add: selector_candidates_def List.map_filter_def ex_script_skipped ex_anchor_facts)

lemma ex_selectors_split:
  "selectors = [''table tbody tr td a'', ''div.noticeboard_list a''] @ ''div.notice a'' #
     [''ul.notice-list a'', ''div.card a'', ''div.page a[href*='/notice/']'',
      ''a[href*='notice']'', ''a[href*='/notice/']'', ''.post .entry-title a'',
      ''.widget_recent_entries a'']"
  by (simp add: selectors_def)


section \<open>Date resolution on the four literal formats\<close>

text \<open>
  C6. Each of the strings "28/11/2025", "28-11-2025", "2025-11-28" and
  "28 November 2025" resolves to the calendar date 28 November 2025 (ordinal 739583),
  by the PTU scraper's \<open>try_parse_date\<close> and by the GNDEC scraper's
  \<open>try_extract_date_from_text\<close> alike.
\<close>

theorem date_formats_resolve:
  "try_parse_date ''28/11/2025'' = mk_date 2025 11 28 \<and>
   try_parse_date ''28-11-2025'' = mk_date 2025 11 28 \<and>
   try_parse_date ''2025-11-28'' = mk_date 2025 11 28 \<and>
   try_parse_date ''28 November 2025'' = mk_date 2025 11 28 \<and>
   try_extract_date_from_text ''28/11/2025'' = mk_date 2025 11 28 \<and>
   try_extract_date_from_text ''28-11-2025'' = mk_date 2025 11 28 \<and>
   try_extract_date_from_text ''2025-11-28'' = mk_date 2025 11 28 \<and>
   try_extract_date_from_text ''28 November 2025'' = mk_date 2025 11 28 \<and>
   mk_date 2025 11 28 = Some 739583"
  by code_simp


section \<open>A duplicate is not inserted\<close>

text \<open>
  C1. The existence check reports a notice as already existing exactly when a stored
  notice has the same link or the same title. Then the insert attempt of either scraper
  returns the state as it was: no notice row is added, \<open>notify_if_matches\<close> is not
  called and nothing is sent. Repeating an insert attempt changes nothing, and after an
  attempt on a store without the pair exactly one stored notice has that link or that
  title.
\<close>

theorem duplicate_insert_is_noop:
  "(existing st lnk ttl \<longleftrightarrow> (\<exists>n\<in>set (notices st). n_link n = lnk \<or> n_title n = ttl)) \<and>
   (existing st lnk ttl \<longrightarrow>
      gndec_save_item e today st (ttl, lnk, hint) = st \<and>
      ptu_check_and_insert e st ttl lnk d = st) \<and>
   (existing st (urljoin e PTU_BASE raw) ttl \<and> r_title row = Some ttl \<and> r_link row = Some raw \<longrightarrow>
      ptu_process_row e today st row = st) \<and>
   gndec_save_item e today (gndec_save_item e today st (ttl, lnk, hint)) (ttl, lnk, hint) =
     gndec_save_item e today st (ttl, lnk, hint) \<and>
   ptu_process_row e today (ptu_process_row e today st row) row = ptu_process_row e today st row \<and>
   (\<not> existing st lnk ttl \<longrightarrow>
      length (filter (\<lambda>n. n_link n = lnk \<or> n_title n = ttl)
                (notices (gndec_save_item e today st (ttl, lnk, hint)))) = 1 \<and>
      length (filter (\<lambda>n. n_link n = lnk \<or> n_title n = ttl)
                (notices (ptu_check_and_insert e st ttl lnk d))) = 1)"
proof -
  have 1: "existing st lnk ttl \<longleftrightarrow> (\<exists>n\<in>set (notices st). n_link n = lnk \<or> n_title n = ttl)"
    by (rule existing_iff)
  have 2: "existing st lnk ttl \<longrightarrow>
      gndec_save_item e today st (ttl, lnk, hint) = st \<and>
      ptu_check_and_insert e st ttl lnk d = st"
    by (simp add: gndec_save_item_existing ptu_check_and_insert_def)
  have 3: "existing st (urljoin e PTU_BASE raw) ttl \<and> r_title row = Some ttl \<and> r_link row = Some raw \<longrightarrow>
      ptu_process_row e today st row = st"
    using ptu_process_row_existing by blast
  have 4: "gndec_save_item e today (gndec_save_item e today st (ttl, lnk, hint)) (ttl, lnk, hint) =
     gndec_save_item e today st (ttl, lnk, hint)"
    by (rule gndec_save_item_idem)
  have 5: "ptu_process_row e today (ptu_process_row e today st row) row = ptu_process_row e today st row"
    by (rule ptu_process_row_idem)
  have 6: "\<not> existing st lnk ttl \<longrightarrow>
      length (filter (\<lambda>n. n_link n = lnk \<or> n_title n = ttl)
                (notices (gndec_save_item e today st (ttl, lnk, hint)))) = 1 \<and>
      length (filter (\<lambda>n. n_link n = lnk \<or> n_title n = ttl)
                (notices (ptu_check_and_insert e st ttl lnk d))) = 1"
    by (simp add: gndec_save_item_new ptu_check_and_insert_def count_after_insert)
  from 1 2 3 4 5 6 show ?thesis by blast
qed

text \<open>
  The theorem at the example data: the stored notice "Mid-term Exam Schedule" offered
  again by either scraper, with its link or with another link, leaves the state as it
  was; a new pair offered to the empty store is stored once.
\<close>

theorem duplicate_insert_is_noop_witness:
  "gndec_save_item ex_env ex_today ex_state
     (''Mid-term Exam Schedule'', ''https://ptu.ac.in/other'', HNone) = ex_state \<and>
   ptu_process_row ex_env ex_today ex_state ex_row_known = ex_state \<and>
   length (filter (\<lambda>n. n_link n = ''https://ptu.ac.in/n/20'' \<or> n_title n = ''Result Notice'')
             (notices (gndec_save_item ex_env ex_today ex_store_empty
                (''Result Notice'', ''https://ptu.ac.in/n/20'', HNone)))) = 1"
proof -
  have a: "gndec_save_item ex_env ex_today ex_state
     (''Mid-term Exam Schedule'', ''https://ptu.ac.in/other'', HNone) = ex_state"
    using duplicate_insert_is_noop [of ex_state "''https://ptu.ac.in/other''"
        "''Mid-term Exam Schedule''" ex_env ex_today HNone 0 "''/x''" ex_row_known]
      ex_known_existing(2) by blast
  have "existing ex_state (urljoin ex_env PTU_BASE ''/n/7'') ''Mid-term Exam Schedule''"
    by (simp add: ex_strings ex_known_existing)
  then have b: "ptu_process_row ex_env ex_today ex_state ex_row_known = ex_state"
    using duplicate_insert_is_noop [of ex_state "''https://ptu.ac.in/n/7''"
        "''Mid-term Exam Schedule''" ex_env ex_today HNone 0 "''/n/7''" ex_row_known]
    by simp
  have c: "length (filter (\<lambda>n. n_link n = ''https://ptu.ac.in/n/20'' \<or> n_title n = ''Result Notice'')
             (notices (gndec_save_item ex_env ex_today ex_store_empty
                (''Result Notice'', ''https://ptu.ac.in/n/20'', HNone)))) = 1"
    using duplicate_insert_is_noop [of ex_store_empty "''https://ptu.ac.in/n/20''"
        "''Result Notice''" ex_env ex_today HNone 0 "''/x''" ex_row_known]
      ex_known_existing(3) by blast
  from a b c show ?thesis by blast
qed


section \<open>The matcher\<close>

text \<open>
  C2, as stated, fails for a keyword with surrounding blanks: the alert with keyword
  " exam" (a leading space) and no source filter is matched with the notice titled
  "Exam" by both paths, although " exam" does not occur in "Exam".
\<close>

theorem matcher_counterexample:
  "matches_immediate ex_padded ex_short \<and> matches_daily ex_padded ex_short \<and>
   \<not> spec_matches ex_padded ex_short"
  by (simp add: ex_padded_facts)

text \<open>
  C2, amended. The matcher accepts an alert and a notice if and only if the alert's
  source filter is absent or empty, or equals the notice's source without regard to
  case, and the alert's keyword, with surrounding whitespace stripped, is absent or
  empty, or occurs in the notice's title without regard to case (as a contiguous run of
  characters). The daily digest applies the same predicate as the immediate path. An
  alert with no source filter and no keyword matches every notice. For a keyword without
  surrounding whitespace this is the predicate of the specification as it is worded.
\<close>

theorem matcher_characterisation:
  "(matches_immediate a n \<longleftrightarrow>
      (or_empty (a_source a) = [] \<or> ci_equal (or_empty (a_source a)) (n_source n)) \<and>
      (strip (or_empty (a_keyword a)) = [] \<or>
       ci_substring (strip (or_empty (a_keyword a))) (n_title n))) \<and>
   matches_daily a n = matches_immediate a n \<and>
   (or_empty (a_source a) = [] \<and> or_empty (a_keyword a) = [] \<longrightarrow> matches_immediate a n) \<and>
   (ci_substring k t \<longleftrightarrow> (\<exists>p q. lower t = p @ lower k @ q)) \<and>
   (strip (or_empty (a_keyword a)) = or_empty (a_keyword a) \<longrightarrow>
      matches_immediate a n = spec_matches a n)"
proof (intro conjI impI)
  show "matches_immediate a n \<longleftrightarrow>
      (or_empty (a_source a) = [] \<or> ci_equal (or_empty (a_source a)) (n_source n)) \<and>
      (strip (or_empty (a_keyword a)) = [] \<or>
       ci_substring (strip (or_empty (a_keyword a))) (n_title n))"
    by (rule matches_immediate_iff)
  show "matches_daily a n = matches_immediate a n"
    by (rule matches_daily_eq)
  show "ci_substring k t \<longleftrightarrow> (\<exists>p q. lower t = p @ lower k @ q)"
    by (simp add: ci_substring_def str_in_iff)
next
  assume "or_empty (a_source a) = [] \<and> or_empty (a_keyword a) = []"
  then show "matches_immediate a n"
    by (simp add: matches_immediate_iff)
next
  assume "strip (or_empty (a_keyword a)) = or_empty (a_keyword a)"
  then show "matches_immediate a n = spec_matches a n"
    by (simp add: matches_immediate_iff spec_matches_def)
qed

text \<open>
  The theorem at the truth table of the specification: the alert for source "PTU" and
  keyword "exam" matches the PTU notice "Mid-term Exam Schedule" and does not match the
  GNDEC notice "Exam Schedule"; the alert without source and keyword matches it.
\<close>

theorem matcher_characterisation_witness:
  "matches_immediate ex_alert ex_notice \<and> matches_daily ex_alert ex_notice \<and>
   \<not> spec_matches ex_alert ex_gndec \<and> \<not> matches_daily ex_alert ex_gndec \<and>
   matches_immediate ex_sms ex_gndec"
proof -
  have clean: "strip (or_empty (a_keyword ex_alert)) = or_empty (a_keyword ex_alert)"
    by (simp add: ex_truth_table)
  have none: "or_empty (a_source ex_sms) = [] \<and> or_empty (a_keyword ex_sms) = []"
    by simp
  have a: "matches_immediate ex_alert ex_notice" "matches_daily ex_alert ex_notice"
    using matcher_characterisation [of ex_alert ex_notice "[]" "[]"] clean ex_truth_table(1)
    by blast+
  have b: "\<not> spec_matches ex_alert ex_gndec" "\<not> matches_daily ex_alert ex_gndec"
    using matcher_characterisation [of ex_alert ex_gndec "[]" "[]"] clean ex_truth_table(2)
    by blast+
  have c: "matches_immediate ex_sms ex_gndec"
    using matcher_characterisation [of ex_sms ex_gndec "[]" "[]"] none by blast
  from a b c show ?thesis by blast
qed


section \<open>Ledger writes follow successful sends\<close>

text \<open>
  C3. In the immediate path and in the daily path alike, the step for one alert writes to
  the sent-ledger only when it made a send call and that call reported success (and then
  the record written by the immediate path is the pair of this alert and this notice).
  When the channel is neither "whatsapp" nor "telegram", or the send call reported
  failure, the ledger is left as it was, so the pair is still not marked as sent.
  For a whole run of either path: when the ledger has changed, one of the send calls of
  that run reported success.
\<close>

theorem ledger_only_after_successful_send:
  "(alerts_sent (notify_alert e n st a) \<noteq> alerts_sent st \<longrightarrow>
      (\<exists>c. outbox (notify_alert e n st a) = outbox st @ [c] \<and> sc_ok c \<and>
           sc_to c = a_user_identifier a \<and> sc_text c = immediate_message n) \<and>
      alerts_sent (notify_alert e n st a) = alerts_sent st @ [(a_id a, n_id n)]) \<and>
   ((a_channel a \<noteq> ''whatsapp'' \<and> a_channel a \<noteq> ''telegram'') \<or>
    (\<exists>c. outbox (notify_alert e n st a) = outbox st @ [c] \<and> \<not> sc_ok c) \<longrightarrow>
      alerts_sent (notify_alert e n st a) = alerts_sent st) \<and>
   (alerts_sent (digest_alert e rs st a) \<noteq> alerts_sent st \<longrightarrow>
      (\<exists>c. outbox (digest_alert e rs st a) = outbox st @ [c] \<and> sc_ok c \<and>
           sc_to c = a_user_identifier a \<and>
           sc_text c = digest_message (digest_matched st a rs))) \<and>
   ((a_channel a \<noteq> ''whatsapp'' \<and> a_channel a \<noteq> ''telegram'') \<or>
    (\<exists>c. outbox (digest_alert e rs st a) = outbox st @ [c] \<and> \<not> sc_ok c) \<longrightarrow>
      alerts_sent (digest_alert e rs st a) = alerts_sent st) \<and>
   (alerts_sent (notify_if_matches e n st) \<noteq> alerts_sent st \<longrightarrow>
      (\<exists>c\<in>set (drop (length (outbox st)) (outbox (notify_if_matches e n st))). sc_ok c)) \<and>
   (alerts_sent (daily_digest e now st) \<noteq> alerts_sent st \<longrightarrow>
      (\<exists>c\<in>set (drop (length (outbox st)) (outbox (daily_digest e now st))). sc_ok c))"
proof (intro conjI impI)
  assume "alerts_sent (notify_alert e n st a) \<noteq> alerts_sent st"
  then show "\<exists>c. outbox (notify_alert e n st a) = outbox st @ [c] \<and> sc_ok c \<and>
           sc_to c = a_user_identifier a \<and> sc_text c = immediate_message n"
    by (auto simp: notify_alert_eq split: if_splits)
next
  assume "alerts_sent (notify_alert e n st a) \<noteq> alerts_sent st"
  then show "alerts_sent (notify_alert e n st a) = alerts_sent st @ [(a_id a, n_id n)]"
    by (auto simp: notify_alert_eq mark_sent_def already_sent_iff split: if_splits)
next
  assume "(a_channel a \<noteq> ''whatsapp'' \<and> a_channel a \<noteq> ''telegram'') \<or>
    (\<exists>c. outbox (notify_alert e n st a) = outbox st @ [c] \<and> \<not> sc_ok c)"
  then show "alerts_sent (notify_alert e n st a) = alerts_sent st"
    by (auto simp: notify_alert_eq split: if_splits)
next
  assume "alerts_sent (digest_alert e rs st a) \<noteq> alerts_sent st"
  then show "\<exists>c. outbox (digest_alert e rs st a) = outbox st @ [c] \<and> sc_ok c \<and>
           sc_to c = a_user_identifier a \<and>
           sc_text c = digest_message (digest_matched st a rs)"
    by (auto simp: digest_alert_eq split: if_splits)
next
  assume "(a_channel a \<noteq> ''whatsapp'' \<and> a_channel a \<noteq> ''telegram'') \<or>
    (\<exists>c. outbox (digest_alert e rs st a) = outbox st @ [c] \<and> \<not> sc_ok c)"
  then show "alerts_sent (digest_alert e rs st a) = alerts_sent st"
    by (auto simp: digest_alert_eq split: if_splits)
next
  assume "alerts_sent (notify_if_matches e n st) \<noteq> alerts_sent st"
  then show "\<exists>c\<in>set (drop (length (outbox st)) (outbox (notify_if_matches e n st))). sc_ok c"
    by (rule notify_run_ledger)
next
  assume "alerts_sent (daily_digest e now st) \<noteq> alerts_sent st"
  then show "\<exists>c\<in>set (drop (length (outbox st)) (outbox (daily_digest e now st))). sc_ok c"
    by (rule digest_run_ledger)
qed

text \<open>
  The theorem at the example data: a telegram alert and a whatsapp digest alert with a
  channel that accepts the message, the same with a channel that is down, and an alert
  of the unknown channel "sms".
\<close>

theorem ledger_only_after_successful_send_witness:
  "alerts_sent (notify_alert ex_env ex_notice ex_state ex_alert) = alerts_sent ex_state @ [(1, 7)] \<and>
   (\<exists>c. outbox (notify_alert ex_env ex_notice ex_state ex_alert) = outbox ex_state @ [c] \<and> sc_ok c) \<and>
   (\<exists>c. outbox (notify_alert ex_env_down ex_notice ex_state ex_alert) = outbox ex_state @ [c] \<and> \<not> sc_ok c) \<and>
   alerts_sent (notify_alert ex_env_down ex_notice ex_state ex_alert) = alerts_sent ex_state \<and>
   (\<exists>c. outbox (digest_alert ex_env [ex_notice, ex_notice2] ex_state ex_daily) = outbox ex_state @ [c] \<and> sc_ok c) \<and>
   (\<exists>c. outbox (digest_alert ex_env_down [ex_notice, ex_notice2] ex_state ex_daily) = outbox ex_state @ [c] \<and> \<not> sc_ok c) \<and>
   alerts_sent (digest_alert ex_env_down [ex_notice, ex_notice2] ex_state ex_daily) = alerts_sent ex_state \<and>
   alerts_sent (digest_alert ex_env [ex_notice, ex_notice2] ex_state ex_sms) = alerts_sent ex_state \<and>
   (\<exists>c\<in>set (drop (length (outbox ex_state)) (outbox (notify_if_matches ex_env ex_notice ex_state))).
      sc_ok c) \<and>
   (\<exists>c\<in>set (drop (length (outbox ex_state)) (outbox (daily_digest ex_env ex_now ex_state))).
      sc_ok c)"
  using ledger_only_after_successful_send [of ex_env ex_notice ex_state ex_alert "[ex_notice, ex_notice2]"]
    ledger_only_after_successful_send [of ex_env_down ex_notice ex_state ex_alert "[ex_notice, ex_notice2]"]
    ledger_only_after_successful_send [of ex_env ex_notice ex_state ex_daily "[ex_notice, ex_notice2]"]
    ledger_only_after_successful_send [of ex_env_down ex_notice ex_state ex_daily "[ex_notice, ex_notice2]"]
    ledger_only_after_successful_send [of ex_env ex_notice ex_state ex_sms "[ex_notice, ex_notice2]" ex_now]
  by (simp add: ex_immediate_sent ex_immediate_failed ex_digest_sent ex_digest_failed
      ex_notify_run ex_run_sent)


section \<open>One digest message per alert\<close>




section \<open>The retention window of the PTU scraper\<close>

text \<open>
  C5. A PTU row whose date is earlier than today minus 30 days is skipped, whatever the
  store holds: the state is returned as it was, and the duplicate check is not reached.
  A row with a title and a link whose date is today minus 30 days, or later, goes on to
  the duplicate check and the insert; when the store has no notice of that link or that
  title, the notice is stored with that date and the source "PTU".
\<close>

theorem age_filter_boundary:
  "(r_date row = Some d \<and> d < today - 30 \<longrightarrow> ptu_process_row e today st row = st) \<and>
   (r_title row = Some ttl \<and> strip ttl \<noteq> [] \<and> r_link row = Some raw \<and> raw \<noteq> [] \<and>
    r_date row = Some d \<and> today - 30 \<le> d \<longrightarrow>
      ptu_process_row e today st row = ptu_check_and_insert e st ttl (urljoin e PTU_BASE raw) d \<and>
      (\<not> existing st (urljoin e PTU_BASE raw) ttl \<longrightarrow>
         notices (ptu_process_row e today st row) =
           notices st @ [new_row st ''PTU'' ttl (urljoin e PTU_BASE raw) d]))"
proof -
  have 1: "r_date row = Some d \<and> d < today - 30 \<longrightarrow> ptu_process_row e today st row = st"
    using ptu_process_row_old by blast
  have 2: "r_title row = Some ttl \<and> strip ttl \<noteq> [] \<and> r_link row = Some raw \<and> raw \<noteq> [] \<and>
    r_date row = Some d \<and> today - 30 \<le> d \<longrightarrow>
      ptu_process_row e today st row = ptu_check_and_insert e st ttl (urljoin e PTU_BASE raw) d"
    using ptu_process_row_retained by blast
  have 3: "\<not> existing st (urljoin e PTU_BASE raw) ttl \<longrightarrow>
      notices (ptu_check_and_insert e st ttl (urljoin e PTU_BASE raw) d) =
           notices st @ [new_row st ''PTU'' ttl (urljoin e PTU_BASE raw) d]"
    using ptu_check_and_insert_new by blast
  from 1 2 3 show ?thesis by auto
qed

text \<open>
  The theorem at the example data, for the run of 28 November 2025: the row dated
  29 October 2025 (today minus 30 days) is stored; the same row dated 28 October 2025 is
  skipped, also when the store is empty.
\<close>

theorem age_filter_boundary_witness:
  "ex_today - 30 = 739553 \<and>
   notices (ptu_process_row ex_env ex_today ex_store_empty ex_row_boundary) =
     [\<lparr>n_id = 1, n_title = ''Result Notice'', n_link = ''https://ptu.ac.in/n/20'',
       n_date = 739553, n_source = ''PTU''\<rparr>] \<and>
   ptu_process_row ex_env ex_today ex_store_empty ex_row_old = ex_store_empty"
proof -
  have t: "ex_today - 30 = 739553" by (simp add: ex_today_def)
  have h: "r_title ex_row_boundary = Some ''Result Notice'' \<and> strip ''Result Notice'' \<noteq> [] \<and>
     r_link ex_row_boundary = Some ''/n/20'' \<and> ''/n/20'' \<noteq> [] \<and>
     r_date ex_row_boundary = Some 739553 \<and> ex_today - 30 \<le> 739553"
    using ex_strings(1) t by simp
  have n: "\<not> existing ex_store_empty (urljoin ex_env PTU_BASE ''/n/20'') ''Result Notice''"
    by (rule ex_known_existing)
  have a: "notices (ptu_process_row ex_env ex_today ex_store_empty ex_row_boundary) =
     notices ex_store_empty @
       [new_row ex_store_empty ''PTU'' ''Result Notice'' (urljoin ex_env PTU_BASE ''/n/20'') 739553]"
    using age_filter_boundary [of ex_row_boundary 739553 ex_today ex_env ex_store_empty
        "''Result Notice''" "''/n/20''"] h n by blast
  have o: "r_date ex_row_old = Some 739552 \<and> 739552 < ex_today - 30"
    using t by simp
  have b: "ptu_process_row ex_env ex_today ex_store_empty ex_row_old = ex_store_empty"
    using age_filter_boundary [of ex_row_old 739552 ex_today ex_env ex_store_empty
        "''Result Notice''" "''/n/20''"] o by blast
  from a have a': "notices (ptu_process_row ex_env ex_today ex_store_empty ex_row_boundary) =
     [\<lparr>n_id = 1, n_title = ''Result Notice'', n_link = ''https://ptu.ac.in/n/20'',
       n_date = 739553, n_source = ''PTU''\<rparr>]"
    by (simp add: new_row_def ex_strings)
  from t a' b show ?thesis by blast
qed


section \<open>The candidates of a digest run\<close>

text \<open>
  C7. The window of a digest run is the 24 hours before it: so say the specification,
  the docstring of \<open>daily_digest\<close> ("get notices from last 24 hours") and its log line.
  The query of \<open>fetch_recent_notices\<close> has the lower bound only. At the run of
  28 November 2025, 18:00, the stored notice dated 5 December 2025 is a candidate,
  although its date does not fall within the 24 hours before the run, and the run sends
  it to the daily alert in the digest.
\<close>

theorem digest_window_failing_input:
  "ex_future \<in> set (fetch_recent_notices (since_of ex_now) ex_state_future) \<and>
   \<not> spec_within_prior_24h ex_now (n_date ex_future) \<and>
   map sc_text (outbox (daily_digest ex_env ex_now ex_state_future)) =
     [digest_message [ex_future]]"
  by (simp add: fetch_recent_iff since_of_def spec_within_prior_24h_def instant_def ex_future_run)


section \<open>Candidates without a date\<close>

text \<open>
  C8, as stated, fails for an undated GNDEC candidate whose link or title is already
  stored: it is skipped before any date is looked for, so no page is fetched and
  nothing is persisted.
\<close>

theorem undated_candidate_counterexample:
  "hint_date HNone = None \<and>
   existing ex_state ''https://ptu.ac.in/other'' ''Mid-term Exam Schedule'' \<and>
   fetched (gndec_save_item ex_env ex_today ex_state
      (''Mid-term Exam Schedule'', ''https://ptu.ac.in/other'', HNone)) = fetched ex_state \<and>
   notices (gndec_save_item ex_env ex_today ex_state
      (''Mid-term Exam Schedule'', ''https://ptu.ac.in/other'', HNone)) = notices ex_state"
  by (simp add: hint_date_def gndec_save_item_existing ex_known_existing)

text \<open>
  C8, amended. A PTU row without a resolved date is skipped: the state is returned as it
  was. A GNDEC candidate without a resolved date whose link and title are not yet stored
  has its page fetched for a date, and is stored with the date found there or, when
  none is found, with the current date. A GNDEC candidate whose link or title is already
  stored is skipped, dated or not, without a page fetch.
\<close>

theorem undated_candidates:
  "(r_date row = None \<longrightarrow> ptu_process_row e today st row = st) \<and>
   (hint_date hint = None \<and> \<not> existing st href ttl \<longrightarrow>
      fetched (gndec_save_item e today st (ttl, href, hint)) = fetched st @ [href] \<and>
      notices (gndec_save_item e today st (ttl, href, hint)) =
        notices st @ [new_row st ''GNDEC'' ttl href
           (case get_notice_date_from_page e href of Some pd \<Rightarrow> pd | None \<Rightarrow> today)]) \<and>
   (existing st href ttl \<longrightarrow> gndec_save_item e today st (ttl, href, hint) = st)"
proof -
  have 1: "r_date row = None \<longrightarrow> ptu_process_row e today st row = st"
    using ptu_process_row_undated by blast
  have 2: "hint_date hint = None \<and> \<not> existing st href ttl \<longrightarrow>
      fetched (gndec_save_item e today st (ttl, href, hint)) = fetched st @ [href] \<and>
      notices (gndec_save_item e today st (ttl, href, hint)) =
        notices st @ [new_row st ''GNDEC'' ttl href
           (case get_notice_date_from_page e href of Some pd \<Rightarrow> pd | None \<Rightarrow> today)]"
    using gndec_save_item_undated by blast
  have 3: "existing st href ttl \<longrightarrow> gndec_save_item e today st (ttl, href, hint) = st"
    using gndec_save_item_existing by blast
  from 1 2 3 show ?thesis by blast
qed

text \<open>
  The theorem at the example data: the undated row is not stored by the PTU loop; the
  same candidate without a date hint, its page giving no date either, is stored by the
  GNDEC loop with the date of the run after one page fetch.
\<close>

theorem undated_candidates_witness:
  "ptu_process_row ex_env ex_today ex_store_empty ex_row_undated = ex_store_empty \<and>
   fetched (gndec_save_item ex_env ex_today ex_store_empty
      (''Result Notice'', ''https://ptu.ac.in/n/20'', HNone)) = [''https://ptu.ac.in/n/20''] \<and>
   notices (gndec_save_item ex_env ex_today ex_store_empty
      (''Result Notice'', ''https://ptu.ac.in/n/20'', HNone)) =
     [\<lparr>n_id = 1, n_title = ''Result Notice'', n_link = ''https://ptu.ac.in/n/20'',
       n_date = ex_today, n_source = ''GNDEC''\<rparr>] \<and>
   gndec_save_item ex_env ex_today ex_state
      (''Mid-term Exam Schedule'', ''https://ptu.ac.in/other'', HNone) = ex_state"
proof -
  have u: "r_date ex_row_undated = None" by simp
  have a: "ptu_process_row ex_env ex_today ex_store_empty ex_row_undated = ex_store_empty"
    using undated_candidates [of ex_row_undated ex_env ex_today ex_store_empty HNone
        "''https://ptu.ac.in/n/20''" "''Result Notice''"] u by blast
  have h: "hint_date HNone = None \<and>
     \<not> existing ex_store_empty ''https://ptu.ac.in/n/20'' ''Result Notice''"
    by (simp add: hint_date_def ex_known_existing)
  have b: "fetched (gndec_save_item ex_env ex_today ex_store_empty
      (''Result Notice'', ''https://ptu.ac.in/n/20'', HNone)) =
        fetched ex_store_empty @ [''https://ptu.ac.in/n/20''] \<and>
     notices (gndec_save_item ex_env ex_today ex_store_empty
      (''Result Notice'', ''https://ptu.ac.in/n/20'', HNone)) =
        notices ex_store_empty @ [new_row ex_store_empty ''GNDEC'' ''Result Notice''
           ''https://ptu.ac.in/n/20''
           (case get_notice_date_from_page ex_env ''https://ptu.ac.in/n/20'' of
              Some pd \<Rightarrow> pd | None \<Rightarrow> ex_today)]"
    using undated_candidates [of ex_row_undated ex_env ex_today ex_store_empty HNone
        "''https://ptu.ac.in/n/20''" "''Result Notice''"] h by blast
  have c: "gndec_save_item ex_env ex_today ex_state
      (''Mid-term Exam Schedule'', ''https://ptu.ac.in/other'', HNone) = ex_state"
    using undated_candidates [of ex_row_undated ex_env ex_today ex_state HNone
        "''https://ptu.ac.in/other''" "''Mid-term Exam Schedule''"] ex_known_existing(2)
    by blast
  from b have b': "fetched (gndec_save_item ex_env ex_today ex_store_empty
      (''Result Notice'', ''https://ptu.ac.in/n/20'', HNone)) = [''https://ptu.ac.in/n/20'']"
    "notices (gndec_save_item ex_env ex_today ex_store_empty
      (''Result Notice'', ''https://ptu.ac.in/n/20'', HNone)) =
     [\<lparr>n_id = 1, n_title = ''Result Notice'', n_link = ''https://ptu.ac.in/n/20'',
       n_date = ex_today, n_source = ''GNDEC''\<rparr>]"
    by (simp_all add: new_row_def)
  from a b' c show ?thesis by blast
qed


section \<open>The order of the extraction passes\<close>

text \<open>
  C9, as stated, fails in the fallback pass for an anchor without visible text: the
  anchor around an image, whose target "/files/date-sheet.pdf" contains "pdf" and is
  navigable, is not accepted.
\<close>

theorem fallback_counterexample:
  "spec_fallback_accepts ex_anchor_image \<and>
   fallback_item ex_env ex_base ex_anchor_image = None \<and>
   extract_notices_from_soup ex_env ex_soup_plain ex_base =
     [(''Date sheet'', ''https://erp.gndec.ac.in/notice/12'', HNone)]"
  by (simp add: ex_anchor_facts extract_notices_from_soup_def try_selectors_find
      find_none ex_candidates fallback_scan_def List.map_filter_def)

text \<open>
  C9, amended. The selectors are tried in their order, and the result is the list of
  usable anchors of the first selector that has any; no later selector contributes.
  Only when no selector has a usable anchor, the result is that of the fallback pass
  over all anchors, which accepts an anchor if and only if it has a target, its visible
  text is not empty, the target does not start with "javascript:" or "mailto:", and the
  text is longer than 30 characters or the target contains "pdf", "notice" or
  "circular". An anchor whose target starts with "javascript:" or "mailto:" is excluded
  in all passes.
\<close>

theorem extraction_order:
  "extract_notices_from_soup e sp b =
     (case List.find (\<lambda>s. selector_candidates e sp b s \<noteq> []) selectors of
        Some s \<Rightarrow> selector_candidates e sp b s
      | None \<Rightarrow> fallback_scan e sp b) \<and>
   (sels = pre @ s # post \<and> (\<forall>x\<in>set pre. selector_candidates e sp b x = []) \<and>
    selector_candidates e sp b s \<noteq> [] \<longrightarrow>
      try_selectors e sp b sels = Some (selector_candidates e sp b s)) \<and>
   ((\<forall>x\<in>set sels. selector_candidates e sp b x = []) \<longrightarrow> try_selectors e sp b sels = None) \<and>
   fallback_scan e sp b = List.map_filter (fallback_item e b) (find_all_a sp) \<and>
   (fallback_item e b a \<noteq> None \<longleftrightarrow>
      (\<exists>href. an_href a = Some href \<and> an_text a \<noteq> [] \<and> \<not> non_navigable href \<and>
         (length (an_text a) > 30 \<or> str_in ''pdf'' (lower href) \<or>
          str_in ''notice'' (lower href) \<or> str_in ''circular'' (lower href)))) \<and>
   (an_href a = Some href \<and> non_navigable href \<longrightarrow>
      selector_item e b a = None \<and> fallback_item e b a = None)"
proof -
  have 1: "extract_notices_from_soup e sp b =
     (case List.find (\<lambda>s. selector_candidates e sp b s \<noteq> []) selectors of
        Some s \<Rightarrow> selector_candidates e sp b s
      | None \<Rightarrow> fallback_scan e sp b)"
    by (simp add: extract_notices_from_soup_def try_selectors_find split: option.splits)
  have 2: "sels = pre @ s # post \<and> (\<forall>x\<in>set pre. selector_candidates e sp b x = []) \<and>
    selector_candidates e sp b s \<noteq> [] \<longrightarrow>
      try_selectors e sp b sels = Some (selector_candidates e sp b s)"
    by (simp add: try_selectors_find find_first)
  have 3: "(\<forall>x\<in>set sels. selector_candidates e sp b x = []) \<longrightarrow> try_selectors e sp b sels = None"
    by (simp add: try_selectors_find find_none)
  have 4: "fallback_scan e sp b = List.map_filter (fallback_item e b) (find_all_a sp)"
    by (simp add: fallback_scan_def)
  have 5: "fallback_item e b a \<noteq> None \<longleftrightarrow>
      (\<exists>href. an_href a = Some href \<and> an_text a \<noteq> [] \<and> \<not> non_navigable href \<and>
         (length (an_text a) > 30 \<or> str_in ''pdf'' (lower href) \<or>
          str_in ''notice'' (lower href) \<or> str_in ''circular'' (lower href)))"
    by (rule fallback_item_iff)
  have 6: "an_href a = Some href \<and> non_navigable href \<longrightarrow>
      selector_item e b a = None \<and> fallback_item e b a = None"
    using non_navigable_excluded by blast
  from 1 2 3 4 5 6 show ?thesis by blast
qed

text \<open>
  The theorem at the example page: the first selector finds only a "javascript:" anchor
  and the second nothing, so the third, "div.notice a", gives the whole result, although
  a later selector would find two anchors; on the page where no selector finds anything
  the fallback pass is used.
\<close>

theorem extraction_order_witness:
  "try_selectors ex_env ex_soup ex_base selectors =
     Some [(''Date sheet'', ''https://erp.gndec.ac.in/notice/12'', HNone)] \<and>
   try_selectors ex_env ex_soup_plain ex_base selectors = None \<and>
   selector_item ex_env ex_base ex_anchor_script = None \<and>
   fallback_item ex_env ex_base ex_anchor_script = None \<and>
   fallback_item ex_env ex_base ex_anchor_one \<noteq> None"
proof -
  have h: "selectors = [''table tbody tr td a'', ''div.noticeboard_list a''] @ ''div.notice a'' #
     [''ul.notice-list a'', ''div.card a'', ''div.page a[href*='/notice/']'',
      ''a[href*='notice']'', ''a[href*='/notice/']'', ''.post .entry-title a'',
      ''.widget_recent_entries a''] \<and>
     (\<forall>x\<in>set [''table tbody tr td a'', ''div.noticeboard_list a''].
        selector_candidates ex_env ex_soup ex_base x = []) \<and>
     selector_candidates ex_env ex_soup ex_base ''div.notice a'' \<noteq> []"
    using ex_selectors_split by (simp add: ex_candidates)
  have a: "try_selectors ex_env ex_soup ex_base selectors =
     Some (selector_candidates ex_env ex_soup ex_base ''div.notice a'')"
    using extraction_order [of ex_env ex_soup ex_base selectors
        "[''table tbody tr td a'', ''div.noticeboard_list a'']" "''div.notice a''"
        "[''ul.notice-list a'', ''div.card a'', ''div.page a[href*='/notice/']'',
          ''a[href*='notice']'', ''a[href*='/notice/']'', ''.post .entry-title a'',
          ''.widget_recent_entries a'']" ex_anchor_script "''JavaScript:void(0)''"] h
    by blast
  have n: "\<forall>x\<in>set selectors. selector_candidates ex_env ex_soup_plain ex_base x = []"
    by (simp add: ex_candidates)
  have b: "try_selectors ex_env ex_soup_plain ex_base selectors = None"
    using extraction_order [of ex_env ex_soup_plain ex_base selectors "[]" "[]" "[]"
        ex_anchor_script "''JavaScript:void(0)''"] n by blast
  have j: "an_href ex_anchor_script = Some ''JavaScript:void(0)'' \<and>
     non_navigable ''JavaScript:void(0)''"
    using ex_anchor_facts(4) by simp
  have c: "selector_item ex_env ex_base ex_anchor_script = None \<and>
     fallback_item ex_env ex_base ex_anchor_script = None"
    using extraction_order [of ex_env ex_soup ex_base selectors "[]" "[]" "[]"
        ex_anchor_script "''JavaScript:void(0)''"] j by blast
  have d: "fallback_item ex_env ex_base ex_anchor_one \<noteq> None"
    by (simp add: ex_anchor_facts)
  from a b c d show ?thesis by (simp add: ex_candidates)
qed


section \<open>Which path handles which frequency\<close>

text \<open>
  C10. An alert whose frequency is absent or empty is handled by the immediate path
  exactly as one whose frequency is "immediate". The digest selects the active alerts
  whose frequency is the string "daily" and no others, and the immediate path leaves an
  alert of frequency "daily" to it. An alert of any other frequency is skipped by the
  immediate path and is not selected by the digest; when every alert is of that kind,
  the digest run changes nothing and the immediate run makes no send call and no ledger
  record.
\<close>

theorem frequency_routing:
  "((a_frequency a = None \<or> a_frequency a = Some []) \<longrightarrow>
      freq_or_immediate a = ''immediate'' \<and>
      notify_alert e n st a = notify_alert e n st (a\<lparr>a_frequency := Some ''immediate''\<rparr>)) \<and>
   (a \<in> set (daily_alerts st) \<longleftrightarrow>
      a \<in> set (alerts st) \<and> a_active a \<and> a_frequency a = Some ''daily'') \<and>
   (a_frequency a = Some ''daily'' \<longrightarrow> notify_alert e n st a = st) \<and>
   (other_frequency a \<longrightarrow> notify_alert e n st a = st \<and> a \<notin> set (daily_alerts st)) \<and>
   ((\<forall>x\<in>set (alerts st). other_frequency x) \<longrightarrow>
      daily_digest e now st = st \<and>
      notify_if_matches e n st = st\<lparr>notified := notified st @ [n]\<rparr>)"
proof (intro conjI impI)
  assume h: "a_frequency a = None \<or> a_frequency a = Some []"
  then show "freq_or_immediate a = ''immediate''"
    by (auto simp: freq_or_immediate_def)
  then show "notify_alert e n st a = notify_alert e n st (a\<lparr>a_frequency := Some ''immediate''\<rparr>)"
    by (rule notify_alert_default_frequency)
next
  show "a \<in> set (daily_alerts st) \<longleftrightarrow>
      a \<in> set (alerts st) \<and> a_active a \<and> a_frequency a = Some ''daily''"
    by (rule daily_alerts_iff)
next
  assume "a_frequency a = Some ''daily''"
  then have "freq_or_immediate a \<noteq> ''immediate''" by (simp add: freq_or_immediate_def)
  then show "notify_alert e n st a = st" by (rule notify_alert_not_immediate)
next
  assume o: "other_frequency a"
  then show "notify_alert e n st a = st"
    by (simp add: notify_alert_not_immediate other_frequency_not_immediate)
  from o show "a \<notin> set (daily_alerts st)"
    by (simp add: daily_alerts_iff other_frequency_def)
next
  assume all: "\<forall>x\<in>set (alerts st). other_frequency x"
  then have "daily_alerts st = []"
    by (auto simp: daily_alerts_def other_frequency_def filter_empty_conv)
  then show "daily_digest e now st = st"
    by (simp add: daily_digest_def)
  have "\<And>s x. x \<in> set (get_active_alerts (st\<lparr>notified := notified st @ [n]\<rparr>)) \<Longrightarrow>
      notify_alert e n s x = s"
    using all by (simp add: get_active_alerts_def notify_alert_not_immediate
        other_frequency_not_immediate)
  then show "notify_if_matches e n st = st\<lparr>notified := notified st @ [n]\<rparr>"
    by (simp add: notify_if_matches_def Let_def foldl_identity)
qed

text \<open>
  The theorem at the example data: the telegram alert without a frequency is delivered
  to by the immediate path; the daily alert is selected by the digest and skipped by the
  immediate path; the alert of frequency "weekly" is handled by neither.
\<close>

theorem frequency_routing_witness:
  "a_frequency ex_alert = None \<and>
   notify_alert ex_env ex_notice ex_state ex_alert =
     notify_alert ex_env ex_notice ex_state (ex_alert\<lparr>a_frequency := Some ''immediate''\<rparr>) \<and>
   alerts_sent (notify_alert ex_env ex_notice ex_state ex_alert) = [(1, 7)] \<and>
   ex_daily \<in> set (daily_alerts ex_state) \<and>
   notify_alert ex_env ex_notice ex_state ex_daily = ex_state \<and>
   notify_alert ex_env ex_notice ex_state_weekly ex_weekly = ex_state_weekly \<and>
   ex_weekly \<notin> set (daily_alerts ex_state_weekly) \<and>
   daily_digest ex_env ex_now ex_state_weekly = ex_state_weekly \<and>
   outbox (notify_if_matches ex_env ex_notice ex_state_weekly) = outbox ex_state_weekly"
proof -
  have none: "a_frequency ex_alert = None" by simp
  have a: "notify_alert ex_env ex_notice ex_state ex_alert =
     notify_alert ex_env ex_notice ex_state (ex_alert\<lparr>a_frequency := Some ''immediate''\<rparr>)"
    using frequency_routing [of ex_alert ex_env ex_notice ex_state ex_now] none by blast
  have sel: "ex_daily \<in> set (alerts ex_state) \<and> a_active ex_daily \<and>
     a_frequency ex_daily = Some ''daily''" by simp
  have b: "ex_daily \<in> set (daily_alerts ex_state) \<and>
     notify_alert ex_env ex_notice ex_state ex_daily = ex_state"
    using frequency_routing [of ex_daily ex_env ex_notice ex_state ex_now] sel by blast
  have oth: "other_frequency ex_weekly \<and> (\<forall>x\<in>set (alerts ex_state_weekly). other_frequency x)"
    by simp
  have c: "notify_alert ex_env ex_notice ex_state_weekly ex_weekly = ex_state_weekly \<and>
     ex_weekly \<notin> set (daily_alerts ex_state_weekly) \<and>
     daily_digest ex_env ex_now ex_state_weekly = ex_state_weekly \<and>
     notify_if_matches ex_env ex_notice ex_state_weekly =
       ex_state_weekly\<lparr>notified := notified ex_state_weekly @ [ex_notice]\<rparr>"
    using frequency_routing [of ex_weekly ex_env ex_notice ex_state_weekly ex_now] oth by blast
  from c have d: "outbox (notify_if_matches ex_env ex_notice ex_state_weekly) = outbox ex_state_weekly"
    by simp
  show ?thesis
    using none a b c d ex_immediate_sent(1) by blast
qed

end
